theory Spec2Isabelle
  imports Complex_Main
begin

section \<open>Data model\<close>

text \<open>
  Times are wall-clock readings of \<^verbatim>\<open>Date.now()\<close>: whole milliseconds, modelled
  as \<open>int\<close>.  A \<^verbatim>\<open>Blob\<close> is its byte content together with its MIME type;
  \<^verbatim>\<open>blob.size\<close> is the number of bytes.
\<close>

record Blob =
  bytes :: "nat list"
  btype :: string

definition size_of :: "Blob \<Rightarrow> nat" where
  "size_of b = length (bytes b)"

text \<open>\<^verbatim>\<open>new Blob(parts, { type })\<close>: the parts' bytes in order, retagged.\<close>

definition Blob_new :: "Blob list \<Rightarrow> string \<Rightarrow> Blob" where
  "Blob_new parts ty = \<lparr>bytes = concat (map bytes parts), btype = ty\<rparr>"

text \<open>
  A transcribed text is a JavaScript string whose characters the code looks at (it is
  trimmed): a list of UTF-16 code units.  \<open>ascii\<close> writes one from a literal.
  Credentials and error messages are only compared with the empty string, joined and
  shown; they stay plain strings.
\<close>

type_synonym js_string = "nat list"

definition ascii :: "string \<Rightarrow> js_string" where
  "ascii s = map of_char s"

text \<open>
  \<^verbatim>\<open>AudioSegment\<close> and \<^verbatim>\<open>TranscriptionResult\<close> both carry the fields
  \<^verbatim>\<open>startTime\<close> and \<^verbatim>\<open>endTime\<close>; they extend one record of the two bounds.
  The interface types \<^verbatim>\<open>text\<close> as a string, but the remote service copies it
  unchecked from the reply: \<open>None\<close> is a \<^verbatim>\<open>text\<close> that is not a string
  (\<^verbatim>\<open>undefined\<close>, or another JSON value).
\<close>

record time_bounds =
  startTime :: int
  endTime :: int

record AudioSegment = time_bounds +
  blob :: Blob

record TranscriptionResult = time_bounds +
  "text" :: "js_string option"

text \<open>A thrown \<^verbatim>\<open>Error\<close>, with its message.\<close>

datatype js_error = Error (message: string)

subsection \<open>Host functions on numbers and strings\<close>

text \<open>A non-negative integer in a template literal: its decimal digits.\<close>

fun digits10 :: "nat \<Rightarrow> string" where
  "digits10 n =
     (if n < 10 then [''0123456789'' ! n]
      else digits10 (n div 10) @ [''0123456789'' ! (n mod 10)])"

declare digits10.simps [simp del]

definition Number_toString :: "int \<Rightarrow> string" where
  "Number_toString i = (if i < 0 then ''-'' @ digits10 (nat (- i)) else digits10 (nat i))"

text \<open>
  \<^verbatim>\<open>Math.round(n / d)\<close> for whole \<open>n\<close> and \<open>d > 0\<close>: the nearest integer, a tie
  going up.
\<close>

definition Math_round_div :: "int \<Rightarrow> int \<Rightarrow> int" where
  "Math_round_div n d = (2 * n + d) div (2 * d)"

text \<open>
  \<^verbatim>\<open>String.prototype.trim\<close> removes white space and line terminators from both
  ends: tab, line feed, vertical tab, form feed, carriage return, space, no-break
  space, U+1680, U+2000 to U+200A, the line and paragraph separators U+2028 and U+2029,
  U+202F, U+205F, U+3000 and the byte order mark U+FEFF.
\<close>

definition is_space :: "nat \<Rightarrow> bool" where
  "is_space c =
     (c \<in> set [0x09, 0x0A, 0x0B, 0x0C, 0x0D, 0x20, 0xA0, 0x1680, 0x2028, 0x2029, 0x202F,
               0x205F, 0x3000, 0xFEFF]
      \<or> (0x2000 \<le> c \<and> c \<le> 0x200A))"

definition trim :: "js_string \<Rightarrow> js_string" where
  "trim s = rev (dropWhile is_space (rev (dropWhile is_space s)))"

section \<open>Transcription services\<close>

text \<open>
  What the network gives back to one \<^verbatim>\<open>fetch\<close>: the call rejects (network failure),
  or a response arrives with its status code, its body as text, and what the service
  makes of the body with \<^verbatim>\<open>response.json()\<close> and \<^verbatim>\<open>result.text\<close>: either that
  throws (the body is not JSON, or it is \<^verbatim>\<open>null\<close>), or it yields the \<^verbatim>\<open>text\<close>
  of the parsed value, a string or not.
\<close>

datatype json_reply = JsonThrows string | JsonText "js_string option"

datatype fetch_reply = FetchRejected string | Response nat string json_reply

text \<open>\<^verbatim>\<open>response.ok\<close>: the status is in the range 200 to 299.\<close>

fun ok :: "fetch_reply \<Rightarrow> bool" where
  "ok (FetchRejected m) = False"
| "ok (Response status body js) = (200 \<le> status \<and> status \<le> 299)"

text \<open>
  \<^verbatim>\<open>WhisperTranscriptionService.transcribe\<close>.  The \<^verbatim>\<open>catch\<close> block logs and
  rethrows, so every failure is the error that was thrown inside.
\<close>

definition WhisperTranscriptionService_transcribe ::
    "string \<Rightarrow> fetch_reply \<Rightarrow> AudioSegment \<Rightarrow> js_error + TranscriptionResult" where
  "WhisperTranscriptionService_transcribe apiKey reply audioSegment =
     (if size_of (blob audioSegment) = 0 then Inl (Error ''Empty audio blob'')
      else case reply of
        FetchRejected m \<Rightarrow> Inl (Error m)
      | Response status errorText js \<Rightarrow>
          if \<not> ok reply then
            Inl (Error (''Transcription failed ('' @ Number_toString (int status) @ ''): ''
                        @ errorText))
          else (case js of
            JsonThrows m \<Rightarrow> Inl (Error m)
          | JsonText t \<Rightarrow>
              Inr \<lparr>startTime = startTime audioSegment, endTime = endTime audioSegment,
                   text = t\<rparr>))"

text \<open>
  \<^verbatim>\<open>MockTranscriptionService.transcribe\<close> waits on a 500 ms timer and then returns
  its placeholder.  \<^verbatim>\<open>toLocaleTimeString\<close> depends on the host's locale and time
  zone and is a parameter.
\<close>

definition MockTranscriptionService_delay :: int where
  "MockTranscriptionService_delay = 500"

definition mockText :: "(int \<Rightarrow> js_string) \<Rightarrow> AudioSegment \<Rightarrow> js_string" where
  "mockText toLocaleTimeString audioSegment =
     ascii ''This is a mock transcription for ''
     @ ascii (Number_toString
                (Math_round_div (endTime audioSegment - startTime audioSegment) 1000))
     @ ascii '' seconds of audio recorded at '' @ toLocaleTimeString (startTime audioSegment)"

definition MockTranscriptionService_transcribe ::
    "(int \<Rightarrow> js_string) \<Rightarrow> AudioSegment \<Rightarrow> js_error + TranscriptionResult" where
  "MockTranscriptionService_transcribe toLocaleTimeString audioSegment =
     Inr \<lparr>startTime = startTime audioSegment, endTime = endTime audioSegment,
          text = Some (mockText toLocaleTimeString audioSegment)\<rparr>"

text \<open>The two implementations of the \<^verbatim>\<open>TranscriptionService\<close> interface.\<close>

datatype TranscriptionService =
    MockTranscriptionService
  | WhisperTranscriptionService string

fun transcribe ::
    "TranscriptionService \<Rightarrow> (int \<Rightarrow> js_string) \<Rightarrow> fetch_reply \<Rightarrow> AudioSegment
      \<Rightarrow> js_error + TranscriptionResult" where
  "transcribe MockTranscriptionService tz reply seg = MockTranscriptionService_transcribe tz seg"
| "transcribe (WhisperTranscriptionService k) tz reply seg =
     WhisperTranscriptionService_transcribe k reply seg"

text \<open>
  How long after the call the returned promise can settle at the earliest: the mock
  awaits its timer, the remote variant its \<^verbatim>\<open>fetch\<close>.
\<close>

fun settle_delay :: "TranscriptionService \<Rightarrow> int" where
  "settle_delay MockTranscriptionService = MockTranscriptionService_delay"
| "settle_delay (WhisperTranscriptionService k) = 0"

subsection \<open>Factories\<close>

text \<open>\<^verbatim>\<open>createTranscriptionService(apiKey, useMock)\<close>; the empty string is falsy.\<close>

definition createTranscriptionService :: "string \<Rightarrow> bool \<Rightarrow> TranscriptionService" where
  "createTranscriptionService apiKey useMock =
     (if useMock then MockTranscriptionService
      else if apiKey = [] then MockTranscriptionService
      else WhisperTranscriptionService apiKey)"

text \<open>
  \<^verbatim>\<open>getTranscriptionService()\<close> reads two module constants, computed from the
  environment variables \<^verbatim>\<open>NEXT_PUBLIC_OPENAI_API_KEY\<close> and
  \<^verbatim>\<open>NEXT_PUBLIC_USE_MOCK_SERVICES\<close> (\<open>None\<close> when unset).
\<close>

definition OPENAI_API_KEY :: "string option \<Rightarrow> string" where
  "OPENAI_API_KEY env_key = (case env_key of None \<Rightarrow> [] | Some k \<Rightarrow> k)"

definition USE_MOCK_SERVICE :: "string option \<Rightarrow> bool" where
  "USE_MOCK_SERVICE env_mock = (env_mock = Some ''true'')"

definition getTranscriptionService :: "string option \<Rightarrow> string option \<Rightarrow> TranscriptionService" where
  "getTranscriptionService env_key env_mock =
     (if USE_MOCK_SERVICE env_mock then MockTranscriptionService
      else if OPENAI_API_KEY env_key = [] then MockTranscriptionService
      else WhisperTranscriptionService (OPENAI_API_KEY env_key))"

section \<open>Silence detector\<close>

text \<open>
  The two constructor arguments are fixed for the life of a detector; the two mutable
  fields are its state.  Volumes are real numbers.
\<close>

record SilenceDetector =
  silenceThreshold :: real
  minSilenceLength :: int
  isSilent :: bool
  silenceStartTime :: int

definition SilenceDetector_new :: "real \<Rightarrow> int \<Rightarrow> SilenceDetector" where
  "SilenceDetector_new T L =
     \<lparr>silenceThreshold = T, minSilenceLength = L, isSilent = False, silenceStartTime = 0\<rparr>"

text \<open>\<^verbatim>\<open>detectSilence(volume, currentTime)\<close>: the returned flag and the detector after the call.\<close>

definition detectSilence :: "real \<Rightarrow> int \<Rightarrow> SilenceDetector \<Rightarrow> bool \<times> SilenceDetector" where
  "detectSilence volume currentTime d =
     (let isSilentNow = volume < silenceThreshold d in
      if \<not> isSilent d \<and> isSilentNow then
        (False, d\<lparr>isSilent := True, silenceStartTime := currentTime\<rparr>)
      else if isSilent d \<and> \<not> isSilentNow then
        (False, d\<lparr>isSilent := False\<rparr>)
      else if isSilent d \<and> currentTime - silenceStartTime d \<ge> minSilenceLength d then
        (True, d)
      else (False, d))"

definition reset :: "SilenceDetector \<Rightarrow> SilenceDetector" where
  "reset d = d\<lparr>isSilent := False, silenceStartTime := 0\<rparr>"

text \<open>A sequence of calls, each a volume and a time: the flags returned, in order.\<close>

fun detect_all :: "(real \<times> int) list \<Rightarrow> SilenceDetector \<Rightarrow> bool list \<times> SilenceDetector" where
  "detect_all [] d = ([], d)"
| "detect_all ((v, t) # cs) d =
     (let (b, d') = detectSilence v t d; (bs, d'') = detect_all cs d' in (b # bs, d''))"

section \<open>Audio recorder\<close>

text \<open>
  The component's props (the flush interval and the service), together with two
  things the host supplies: the \<^verbatim>\<open>toLocaleTimeString\<close> that the mock service
  prints with, and the message of the \<^verbatim>\<open>TypeError\<close> that is thrown when
  \<^verbatim>\<open>trim\<close> is called on a text that is not a string.  The callback
  \<^verbatim>\<open>onTranscriptionUpdate\<close> is the page's \<^verbatim>\<open>handleTranscriptionUpdate\<close>.
\<close>

record AudioRecorderProps =
  chunkInterval :: int
  transcriptionService :: TranscriptionService
  toLocaleTimeString :: "int \<Rightarrow> js_string"
  trimTypeError :: string

datatype RecordingState = inactive | recording

text \<open>
  One call of \<^verbatim>\<open>transcribe\<close> that has not settled yet: its segment, the value of
  \<^verbatim>\<open>pendingChunks\<close> that the running \<^verbatim>\<open>processChunk\<close> closure captured, the
  earliest time it can settle, and the chunk number the flush logged for it.
\<close>

record PendingCall =
  segment :: AudioSegment
  seenPending :: int
  readyAt :: int
  chunkNo :: nat

text \<open>
  The component's state: its four \<^verbatim>\<open>useState\<close> cells, its refs, the timers it has
  set, and what it has handed to its collaborators.

  A timer is the time it is due, with the value of \<^verbatim>\<open>pendingChunks\<close> its callback's
  closure captured; it never runs earlier.  \<open>chunkTimerRef\<close> is the interval timer
  whose id the ref holds, \<open>leakedTimers\<close> are interval timers that still run but whose
  id the ref has lost to a later \<^verbatim>\<open>setInterval\<close>, \<open>stopTimeouts\<close> are the timers
  set by \<^verbatim>\<open>stopRecording\<close>.  \<open>micPending\<close> has one entry for every call of
  \<^verbatim>\<open>startRecording\<close> that waits for \<^verbatim>\<open>getUserMedia\<close>, again with the captured
  \<^verbatim>\<open>pendingChunks\<close>.

  \<open>calls\<close> lists every segment passed to \<^verbatim>\<open>transcribe\<close>, \<open>transcriptions\<close> is
  the page's list.  The format probing of \<^verbatim>\<open>startRecording\<close> only feeds the
  status line and is left out.
\<close>

record AudioRecorder =
  isRecording :: bool
  isTranscribing :: bool
  pendingChunks :: int
  error :: "string option"
  mediaRecorderRef :: "RecordingState option"
  streamRef :: bool
  chunksRef :: "Blob list"
  chunkTimerRef :: "(int \<times> int) option"
  leakedTimers :: "(int \<times> int) list"
  startTimeRef :: int
  lastChunkTimeRef :: int
  chunkCountRef :: nat
  micPending :: "int list"
  stopTimeouts :: "(int \<times> int) list"
  inflight :: "PendingCall list"
  calls :: "AudioSegment list"
  transcriptions :: "TranscriptionResult list"

definition initial :: AudioRecorder where
  "initial =
     \<lparr>isRecording = False, isTranscribing = False, pendingChunks = 0, error = None,
      mediaRecorderRef = None, streamRef = False, chunksRef = [], chunkTimerRef = None,
      leakedTimers = [], startTimeRef = 0, lastChunkTimeRef = 0, chunkCountRef = 0,
      micPending = [], stopTimeouts = [], inflight = [], calls = [],
      transcriptions = []\<rparr>"

definition createAudioBlob :: "Blob list \<Rightarrow> Blob" where
  "createAudioBlob chunks = Blob_new chunks ''audio/webm''"

text \<open>\<^verbatim>\<open>lastChunkTimeRef.current || startTimeRef.current\<close>: zero is falsy.\<close>

definition chunkStartTime :: "AudioRecorder \<Rightarrow> int" where
  "chunkStartTime r = (if lastChunkTimeRef r \<noteq> 0 then lastChunkTimeRef r else startTimeRef r)"

text \<open>
  The \<^verbatim>\<open>finally\<close> block of \<^verbatim>\<open>processChunk\<close>; \<open>seen\<close> is the closure's
  \<^verbatim>\<open>pendingChunks\<close>.
\<close>

definition finally_block :: "int \<Rightarrow> AudioRecorder \<Rightarrow> AudioRecorder" where
  "finally_block seen r =
     r\<lparr>pendingChunks := max 0 (pendingChunks r - 1),
       isTranscribing := (if seen \<le> 1 then False else isTranscribing r)\<rparr>"

text \<open>
  \<^verbatim>\<open>processChunk\<close> up to its \<^verbatim>\<open>await\<close>, at clock reading \<open>currentTime\<close>: either it
  returns early, or it leaves one more pending call.  Nothing between the outer
  \<^verbatim>\<open>try\<close> and the inner one throws, so the outer \<^verbatim>\<open>catch\<close> is never entered.
\<close>

definition processChunk :: "AudioRecorderProps \<Rightarrow> int \<Rightarrow> int \<Rightarrow> AudioRecorder \<Rightarrow> AudioRecorder" where
  "processChunk props seen currentTime r =
     (if chunksRef r = [] then r
      else
        let r1 = r\<lparr>chunkCountRef := chunkCountRef r + 1, error := None,
                   isTranscribing := True, pendingChunks := pendingChunks r + 1\<rparr>;
            chunksToProcess = chunksRef r1;
            start = chunkStartTime r1;
            r2 = r1\<lparr>chunksRef := [], lastChunkTimeRef := currentTime\<rparr>;
            audioBlob = createAudioBlob chunksToProcess
        in
          if currentTime - start < 500 \<or> size_of audioBlob < 100 then
            finally_block seen
              (r2\<lparr>pendingChunks := pendingChunks r2 - 1,
                  isTranscribing := (if seen \<le> 1 then False else isTranscribing r2)\<rparr>)
          else
            let audioSegment = \<lparr>startTime = start, endTime = currentTime, blob = audioBlob\<rparr>
            in r2\<lparr>inflight := inflight r2 @
                      [\<lparr>segment = audioSegment, seenPending = seen,
                        readyAt = currentTime + settle_delay (transcriptionService props),
                        chunkNo = chunkCountRef r2\<rparr>],
                    calls := calls r2 @ [audioSegment]\<rparr>)"

text \<open>\<^verbatim>\<open>handleTranscriptionUpdate\<close> of the page.\<close>

definition handleTranscriptionUpdate ::
    "TranscriptionResult \<Rightarrow> TranscriptionResult list \<Rightarrow> TranscriptionResult list" where
  "handleTranscriptionUpdate result prev = prev @ [result]"

text \<open>
  The rest of \<^verbatim>\<open>processChunk\<close>, when the \<open>k\<close>-th pending call settles at clock
  reading \<open>now\<close> with what the network replied.  On a result whose text is not a
  string, \<^verbatim>\<open>result.text.trim()\<close> throws into the inner \<^verbatim>\<open>catch\<close>.
\<close>

definition transcribeSettled ::
    "AudioRecorderProps \<Rightarrow> nat \<Rightarrow> int \<Rightarrow> fetch_reply \<Rightarrow> AudioRecorder \<Rightarrow> AudioRecorder" where
  "transcribeSettled props k now reply r =
     (if k < length (inflight r) \<and> readyAt (inflight r ! k) \<le> now then
        let p = inflight r ! k;
            r1 = r\<lparr>inflight := take k (inflight r) @ drop (Suc k) (inflight r)\<rparr>;
            r2 = (case transcribe (transcriptionService props) (toLocaleTimeString props)
                         reply (segment p) of
                    Inr result \<Rightarrow>
                      (case text result of
                         None \<Rightarrow> r1\<lparr>error := Some (trimTypeError props)\<rparr>
                       | Some t \<Rightarrow>
                           if trim t \<noteq> [] then
                             r1\<lparr>transcriptions :=
                                  handleTranscriptionUpdate
                                    (result\<lparr>text := Some (t @ ascii '' [Chunk #''
                                        @ ascii (Number_toString (int (chunkCountRef r1)))
                                        @ ascii '']'')\<rparr>)
                                    (transcriptions r1)\<rparr>
                           else r1)
                  | Inl e \<Rightarrow> r1\<lparr>error := Some (message e)\<rparr>)
        in finally_block (seenPending p) r2
      else r)"

text \<open>\<^verbatim>\<open>startRecording\<close> up to \<^verbatim>\<open>await getUserMedia\<close>, at clock reading \<open>now\<close>.\<close>

definition startRecording :: "int \<Rightarrow> AudioRecorder \<Rightarrow> AudioRecorder" where
  "startRecording now r =
     (if isRecording r then r
      else r\<lparr>error := None, chunksRef := [], startTimeRef := now, lastChunkTimeRef := now,
             chunkCountRef := 0, micPending := micPending r @ [pendingChunks r]\<rparr>)"

datatype mic_outcome = Granted | Denied string

text \<open>
  The rest of the \<open>k\<close>-th waiting \<^verbatim>\<open>startRecording\<close>, when its \<^verbatim>\<open>getUserMedia\<close>
  settles.  The new interval timer's id overwrites the ref; a timer the ref held
  before runs on.
\<close>

definition getUserMediaSettled ::
    "AudioRecorderProps \<Rightarrow> nat \<Rightarrow> int \<Rightarrow> mic_outcome \<Rightarrow> AudioRecorder \<Rightarrow> AudioRecorder" where
  "getUserMediaSettled props k now outcome r =
     (if k < length (micPending r) then
        let seen = micPending r ! k;
            r1 = r\<lparr>micPending := take k (micPending r) @ drop (Suc k) (micPending r)\<rparr>
        in case outcome of
          Denied m \<Rightarrow> r1\<lparr>error := Some (''Could not access microphone: '' @ m)\<rparr>
        | Granted \<Rightarrow>
            r1\<lparr>streamRef := True, mediaRecorderRef := Some recording,
               leakedTimers := (case chunkTimerRef r1 of
                                  None \<Rightarrow> leakedTimers r1
                                | Some timer \<Rightarrow> leakedTimers r1 @ [timer]),
               chunkTimerRef := Some (now + chunkInterval props, seen),
               isRecording := True\<rparr>
      else r)"

text \<open>The recorder's \<^verbatim>\<open>ondataavailable\<close> handler.\<close>

definition ondataavailable :: "Blob \<Rightarrow> AudioRecorder \<Rightarrow> AudioRecorder" where
  "ondataavailable d r =
     (if mediaRecorderRef r \<noteq> None \<and> size_of d > 0 then r\<lparr>chunksRef := chunksRef r @ [d]\<rparr>
      else r)"

text \<open>The callback of \<^verbatim>\<open>setInterval\<close>, run when the timer is due; the timer is rearmed.\<close>

definition timerTick :: "AudioRecorderProps \<Rightarrow> int \<Rightarrow> AudioRecorder \<Rightarrow> AudioRecorder" where
  "timerTick props now r =
     (case chunkTimerRef r of
        None \<Rightarrow> r
      | Some (due, seen) \<Rightarrow>
          if now < due then r
          else
            let r1 = r\<lparr>chunkTimerRef := Some (due + chunkInterval props, seen)\<rparr>
            in if chunksRef r1 \<noteq> [] then processChunk props seen now r1 else r1)"

text \<open>The same callback, of the \<open>i\<close>-th timer the ref has lost.\<close>

definition leakedTimerTick ::
    "AudioRecorderProps \<Rightarrow> nat \<Rightarrow> int \<Rightarrow> AudioRecorder \<Rightarrow> AudioRecorder" where
  "leakedTimerTick props i now r =
     (if i < length (leakedTimers r) \<and> fst (leakedTimers r ! i) \<le> now then
        let due = fst (leakedTimers r ! i);
            seen = snd (leakedTimers r ! i);
            r1 = r\<lparr>leakedTimers := (leakedTimers r)[i := (due + chunkInterval props, seen)]\<rparr>
        in if chunksRef r1 \<noteq> [] then processChunk props seen now r1 else r1
      else r)"

text \<open>
  \<^verbatim>\<open>stopRecording\<close> at clock reading \<open>now\<close>: the timer of the ref is cleared, the
  recorder and the tracks are stopped, and the last flush is set to run 1000 ms later.
\<close>

definition stopRecording :: "int \<Rightarrow> AudioRecorder \<Rightarrow> AudioRecorder" where
  "stopRecording now r =
     r\<lparr>chunkTimerRef := None,
       mediaRecorderRef := (case mediaRecorderRef r of
                              Some recording \<Rightarrow> Some inactive
                            | other \<Rightarrow> other),
       streamRef := False,
       stopTimeouts := stopTimeouts r @ [(now + 1000, pendingChunks r)]\<rparr>"

text \<open>The callback of that \<^verbatim>\<open>setTimeout\<close>.\<close>

definition stopTimeout :: "AudioRecorderProps \<Rightarrow> int \<Rightarrow> AudioRecorder \<Rightarrow> AudioRecorder" where
  "stopTimeout props now r =
     (case stopTimeouts r of
        [] \<Rightarrow> r
      | (due, seen) # rest \<Rightarrow>
          if now < due then r
          else
            let r1 = r\<lparr>stopTimeouts := rest\<rparr>;
                r2 = (if chunksRef r1 \<noteq> [] then processChunk props seen now r1 else r1)
            in r2\<lparr>isRecording := False\<rparr>)"

text \<open>
  The button: disabled while transcribing and not recording, otherwise it stops a
  recording or starts one.
\<close>

definition click :: "int \<Rightarrow> AudioRecorder \<Rightarrow> AudioRecorder" where
  "click now r =
     (if isTranscribing r \<and> \<not> isRecording r then r
      else if isRecording r then stopRecording now r
      else startRecording now r)"

text \<open>Everything that can happen to the component, each with the clock reading it sees.\<close>

datatype event =
    Click int
  | GetUserMediaSettled nat int mic_outcome
  | DataAvailable Blob
  | TimerTick int
  | LeakedTimerTick nat int
  | StopTimeout int
  | TranscribeSettled nat int fetch_reply

fun step :: "AudioRecorderProps \<Rightarrow> event \<Rightarrow> AudioRecorder \<Rightarrow> AudioRecorder" where
  "step props (Click now) r = click now r"
| "step props (GetUserMediaSettled k now outcome) r = getUserMediaSettled props k now outcome r"
| "step props (DataAvailable d) r = ondataavailable d r"
| "step props (TimerTick now) r = timerTick props now r"
| "step props (LeakedTimerTick i now) r = leakedTimerTick props i now r"
| "step props (StopTimeout now) r = stopTimeout props now r"
| "step props (TranscribeSettled k now reply) r = transcribeSettled props k now reply r"

fun run :: "AudioRecorderProps \<Rightarrow> event list \<Rightarrow> AudioRecorder \<Rightarrow> AudioRecorder" where
  "run props [] r = r"
| "run props (e # es) r = run props es (step props e r)"

section \<open>Vocabulary of the properties\<close>

text \<open>A segment that passes the size test of \<^verbatim>\<open>processChunk\<close>.\<close>

definition worth_sending :: "AudioSegment \<Rightarrow> bool" where
  "worth_sending seg = (500 \<le> endTime seg - startTime seg \<and> 100 \<le> size_of (blob seg))"

text \<open>
  Everything submitted, pending or delivered stems from a segment that passed the test.
\<close>

definition only_worthy :: "AudioRecorder \<Rightarrow> bool" where
  "only_worthy r =
     (list_all worth_sending (calls r)
      \<and> list_all (\<lambda>p. worth_sending (segment p)) (inflight r)
      \<and> list_all (\<lambda>t. 500 \<le> endTime t - startTime t) (transcriptions r))"

definition bounds :: "AudioSegment \<Rightarrow> int \<times> int" where
  "bounds seg = (startTime seg, endTime seg)"

text \<open>
  The clock reading of an event, if it has one, and event lists in which the clock
  never runs backwards from a given reading on.
\<close>

fun time_of :: "event \<Rightarrow> int option" where
  "time_of (Click now) = Some now"
| "time_of (GetUserMediaSettled k now outcome) = Some now"
| "time_of (DataAvailable d) = None"
| "time_of (TimerTick now) = Some now"
| "time_of (LeakedTimerTick i now) = Some now"
| "time_of (StopTimeout now) = Some now"
| "time_of (TranscribeSettled k now reply) = Some now"

fun chronological :: "int \<Rightarrow> event list \<Rightarrow> bool" where
  "chronological t [] = True"
| "chronological t (e # es) =
     (case time_of e of
        None \<Rightarrow> chronological t es
      | Some t' \<Rightarrow> t \<le> t' \<and> chronological t' es)"

text \<open>
  When an event is a flush, and when it starts a recording: a flush is a timer
  callback that comes due and finds fragments in the buffer; a recording is started by
  a click on the enabled button while not recording.  Neither looks at
  \<^verbatim>\<open>lastChunkTimeRef\<close> or \<^verbatim>\<open>startTimeRef\<close>.
\<close>

fun flush_time :: "event \<Rightarrow> AudioRecorder \<Rightarrow> int option" where
  "flush_time (TimerTick now) r =
     (case chunkTimerRef r of
        None \<Rightarrow> None
      | Some (due, seen) \<Rightarrow> if due \<le> now \<and> chunksRef r \<noteq> [] then Some now else None)"
| "flush_time (LeakedTimerTick i now) r =
     (if i < length (leakedTimers r) \<and> fst (leakedTimers r ! i) \<le> now \<and> chunksRef r \<noteq> []
      then Some now else None)"
| "flush_time (StopTimeout now) r =
     (case stopTimeouts r of
        [] \<Rightarrow> None
      | (due, seen) # rest \<Rightarrow> if due \<le> now \<and> chunksRef r \<noteq> [] then Some now else None)"
| "flush_time (Click now) r = None"
| "flush_time (GetUserMediaSettled k now outcome) r = None"
| "flush_time (DataAvailable d) r = None"
| "flush_time (TranscribeSettled k now reply) r = None"

fun start_time :: "event \<Rightarrow> AudioRecorder \<Rightarrow> int option" where
  "start_time (Click now) r =
     (if \<not> isRecording r \<and> \<not> isTranscribing r then Some now else None)"
| "start_time (GetUserMediaSettled k now outcome) r = None"
| "start_time (DataAvailable d) r = None"
| "start_time (TimerTick now) r = None"
| "start_time (LeakedTimerTick i now) r = None"
| "start_time (StopTimeout now) r = None"
| "start_time (TranscribeSettled k now reply) r = None"

text \<open>
  The time of the latest flush or start of a recording in a run of events from state
  \<open>r\<close>, or \<open>m\<close> when there is none.
\<close>

fun previous_mark :: "AudioRecorderProps \<Rightarrow> event list \<Rightarrow> AudioRecorder \<Rightarrow> int \<Rightarrow> int" where
  "previous_mark props [] r m = m"
| "previous_mark props (e # es) r m =
     previous_mark props es (step props e r)
       (case flush_time e r of
          Some t \<Rightarrow> t
        | None \<Rightarrow> (case start_time e r of Some t \<Rightarrow> t | None \<Rightarrow> m))"


text \<open>A fragment of \<open>n\<close> bytes, as the host's recorder emits them.\<close>

definition fragment :: "nat \<Rightarrow> Blob" where
  "fragment n = \<lparr>bytes = replicate n 0, btype = ''audio/webm;codecs=opus''\<rparr>"

text \<open>The props the page passes, with a given service, on some host.\<close>

definition page_props :: "TranscriptionService \<Rightarrow> AudioRecorderProps" where
  "page_props service =
     \<lparr>chunkInterval = 6000, transcriptionService = service,
      toLocaleTimeString = (\<lambda>t. ascii ''12:00:00 AM''),
      trimTypeError = ''result.text is undefined''\<rparr>"

text \<open>
  A recording started at time 0, with fragments arriving, up to just before the first
  tick of the timer; and on through the ticks at 6000 and 12000.
\<close>

definition first_window :: "event list" where
  "first_window =
     [Click 0, GetUserMediaSettled 0 0 Granted, DataAvailable (fragment 4000),
      DataAvailable (fragment 4000), DataAvailable (fragment 4000)]"

definition two_flushes :: "event list" where
  "two_flushes =
     first_window
     @ [TimerTick 6000, DataAvailable (fragment 4000), DataAvailable (fragment 4000),
        DataAvailable (fragment 4000), TimerTick 12000]"

section \<open>The service factory\<close>

text \<open>
  C3.  The factory selects by the mock flag and the credential alone: with the flag set
  it gives the mock service whatever the credential is; without the flag, an empty
  credential gives the mock service and a non-empty one gives the remote service
  holding exactly that credential.  The zero-argument factory of the component is the
  same selection applied to the two values read from the environment.
\<close>

theorem factory_selection:
  "createTranscriptionService credential True = MockTranscriptionService
   \<and> createTranscriptionService [] False = MockTranscriptionService
   \<and> createTranscriptionService (c # cs) False = WhisperTranscriptionService (c # cs)
   \<and> getTranscriptionService env_key env_mock =
       createTranscriptionService (OPENAI_API_KEY env_key) (USE_MOCK_SERVICE env_mock)"
  by (simp add: createTranscriptionService_def getTranscriptionService_def)

theorem factory_selection_witness:
  "createTranscriptionService ''sk-1'' True = MockTranscriptionService
   \<and> createTranscriptionService [] False = MockTranscriptionService
   \<and> createTranscriptionService ''sk-1'' False = WhisperTranscriptionService ''sk-1''
   \<and> getTranscriptionService (Some ''sk-1'') (Some ''false'') = WhisperTranscriptionService ''sk-1''
   \<and> getTranscriptionService (Some ''sk-1'') (Some ''true'') = MockTranscriptionService
   \<and> getTranscriptionService None None = MockTranscriptionService"
  using factory_selection [of "''sk-1''" "CHR ''s''" "''k-1''" "Some ''sk-1''" "Some ''false''"]
    factory_selection [of "''sk-1''" "CHR ''s''" "''k-1''" "Some ''sk-1''" "Some ''true''"]
    factory_selection [of "''sk-1''" "CHR ''s''" "''k-1''" "None" "None"]
  by (simp add: OPENAI_API_KEY_def USE_MOCK_SERVICE_def createTranscriptionService_def)

section \<open>Results of the services\<close>

text \<open>
  C4.  Whenever a call of \<^verbatim>\<open>transcribe\<close> succeeds, on either service and whatever
  the network replied, the result carries the start and end time of the segment that
  was submitted.
\<close>

theorem transcribe_keeps_timestamps:
  assumes "transcribe service tz reply seg = Inr result"
  shows "startTime result = startTime seg \<and> endTime result = endTime seg"
proof (cases service)
  case MockTranscriptionService
  with assms show ?thesis
    by (auto simp: MockTranscriptionService_transcribe_def)
next
  case (WhisperTranscriptionService k)
  with assms show ?thesis
    by (auto simp: WhisperTranscriptionService_transcribe_def
             split: if_splits fetch_reply.splits json_reply.splits)
qed

theorem transcribe_keeps_timestamps_witness:
  "transcribe (WhisperTranscriptionService ''sk-1'') (\<lambda>t. ascii ''noon'')
      (Response 200 ''{}'' (JsonText (Some (ascii ''hello''))))
      \<lparr>startTime = 6000, endTime = 12000,
       blob = \<lparr>bytes = replicate 100 0, btype = ''audio/webm''\<rparr>\<rparr>
     = Inr \<lparr>startTime = 6000, endTime = 12000, text = Some (ascii ''hello'')\<rparr>
   \<and> startTime \<lparr>startTime = 6000, endTime = 12000, text = Some (ascii ''hello'')\<rparr> = (6000::int)
   \<and> endTime \<lparr>startTime = 6000, endTime = 12000, text = Some (ascii ''hello'')\<rparr> = (12000::int)"
proof -
  have h: "transcribe (WhisperTranscriptionService ''sk-1'') (\<lambda>t. ascii ''noon'')
      (Response 200 ''{}'' (JsonText (Some (ascii ''hello''))))
      \<lparr>startTime = 6000, endTime = 12000,
       blob = \<lparr>bytes = replicate 100 0, btype = ''audio/webm''\<rparr>\<rparr>
     = Inr \<lparr>startTime = 6000, endTime = 12000, text = Some (ascii ''hello'')\<rparr>"
    by (simp add: WhisperTranscriptionService_transcribe_def size_of_def)
  from transcribe_keeps_timestamps [OF h] h show ?thesis by simp
qed

text \<open>
  C8.  The mock service never fails: for every segment and whatever the network does,
  its call succeeds after its fixed delay of 500 ms, with the segment's timestamps
  and a text that is computed from the segment's duration and start time alone (the
  host's rendering of the start time being given).
\<close>

theorem mock_never_fails:
  "transcribe MockTranscriptionService tz reply seg
     = Inr \<lparr>startTime = startTime seg, endTime = endTime seg,
            text = Some (ascii ''This is a mock transcription for ''
              @ ascii (Number_toString (Math_round_div (endTime seg - startTime seg) 1000))
              @ ascii '' seconds of audio recorded at '' @ tz (startTime seg))\<rparr>
   \<and> settle_delay MockTranscriptionService = 500"
  by (simp add: MockTranscriptionService_transcribe_def mockText_def
        MockTranscriptionService_delay_def)

theorem mock_never_fails_witness:
  "transcribe MockTranscriptionService (\<lambda>t. ascii ''12:00:00 AM'') (FetchRejected ''offline'')
      \<lparr>startTime = 0, endTime = 6499, blob = \<lparr>bytes = [], btype = ''audio/webm''\<rparr>\<rparr>
     = Inr \<lparr>startTime = 0, endTime = 6499,
            text = Some (ascii
              ''This is a mock transcription for 6 seconds of audio recorded at 12:00:00 AM'')\<rparr>
   \<and> settle_delay MockTranscriptionService = 500"
  using mock_never_fails [of "\<lambda>t. ascii ''12:00:00 AM''" "FetchRejected ''offline''"
      "\<lparr>startTime = 0, endTime = 6499, blob = \<lparr>bytes = [], btype = ''audio/webm''\<rparr>\<rparr>"]
  by (simp add: Math_round_div_def Number_toString_def digits10.simps ascii_def)

section \<open>The silence detector\<close>

text \<open>
  C10.  In every state of the detector, a call whose volume is at or above the
  threshold returns false: only a volume strictly below the threshold can be reported
  as silence.
\<close>

theorem detectSilence_false_on_sound:
  assumes "silenceThreshold d \<le> volume"
  shows "fst (detectSilence volume currentTime d) = False"
  using assms by (simp add: detectSilence_def Let_def)

theorem detectSilence_false_on_sound_witness:
  "silenceThreshold (SilenceDetector_new 0.01 1000\<lparr>isSilent := True, silenceStartTime := 0\<rparr>)
     \<le> 0.01
   \<and> fst (detectSilence 0.01 5000
            (SilenceDetector_new 0.01 1000\<lparr>isSilent := True, silenceStartTime := 0\<rparr>)) = False"
proof -
  have h: "silenceThreshold
             (SilenceDetector_new 0.01 1000\<lparr>isSilent := True, silenceStartTime := 0\<rparr>) \<le> 0.01"
    by (simp add: SilenceDetector_new_def)
  from detectSilence_false_on_sound [OF h, of 5000] h show ?thesis by simp
qed

lemma detect_all_append:
  "detect_all (xs @ ys) d =
     (fst (detect_all xs d) @ fst (detect_all ys (snd (detect_all xs d))),
      snd (detect_all ys (snd (detect_all xs d))))"
  by (induction xs arbitrary: d) (auto simp: split_def Let_def)

lemma detect_all_silent:
  assumes "isSilent d" and "list_all (\<lambda>c. fst c < silenceThreshold d) cs"
  shows "detect_all cs d = (map (\<lambda>c. minSilenceLength d \<le> snd c - silenceStartTime d) cs, d)"
  using assms
  by (induction cs) (auto simp: detectSilence_def Let_def)

text \<open>
  C9, as the code has it.  The call that opens a silence span always returns false.
  With a minimum length of zero that call is already at the minimum length, and the
  detector still answers false on it.
\<close>

theorem silence_span_zero_length_counterexample:
  "0 - 0 \<ge> minSilenceLength (SilenceDetector_new 0.01 0)
   \<and> fst (detect_all [(0, 0), (1, 1)] (SilenceDetector_new 0.01 0)) = [False, False]"
  by (simp add: SilenceDetector_new_def detectSilence_def)

text \<open>
  C9, amended.  Let the minimum silence length be positive and the detector not be
  silent.  On calls that stay below the threshold, the first at time \<open>t0\<close>, followed by
  one call at or above the threshold: a call at time \<open>t\<close> returns true exactly when
  \<open>t - t0\<close> has reached the minimum length, so every call before that point returns
  false and the first call at or after it returns true; the call that rises returns
  false and leaves the detector not silent; and when the times do not decrease, every
  call of the span after one that returned true returns true as well.
\<close>

theorem silence_span_reported:
  assumes "\<not> isSilent d" and "0 < minSilenceLength d"
    and "v0 < silenceThreshold d"
    and "list_all (\<lambda>c. fst c < silenceThreshold d) cs"
    and "silenceThreshold d \<le> v'"
  shows "fst (detect_all ((v0, t0) # cs @ [(v', t')]) d)
           = map (\<lambda>c. minSilenceLength d \<le> snd c - t0) ((v0, t0) # cs) @ [False]
         \<and> (sorted (map snd ((v0, t0) # cs)) \<longrightarrow>
              (\<forall>i j. i \<le> j \<and> j \<le> length cs
                 \<and> fst (detect_all ((v0, t0) # cs @ [(v', t')]) d) ! i
                 \<longrightarrow> fst (detect_all ((v0, t0) # cs @ [(v', t')]) d) ! j))
         \<and> \<not> isSilent (snd (detect_all ((v0, t0) # cs @ [(v', t')]) d))"
proof -
  let ?d1 = "d\<lparr>isSilent := True, silenceStartTime := t0\<rparr>"
  let ?out = "fst (detect_all ((v0, t0) # cs @ [(v', t')]) d)"
  let ?exp = "map (\<lambda>c. minSilenceLength d \<le> snd c - t0) ((v0, t0) # cs)"
  have first: "detectSilence v0 t0 d = (False, ?d1)"
    using assms(1,3) by (simp add: detectSilence_def)
  have mid: "detect_all cs ?d1 = (map (\<lambda>c. minSilenceLength d \<le> snd c - t0) cs, ?d1)"
    using detect_all_silent [of ?d1 cs] assms(4) by simp
  have last: "detectSilence v' t' ?d1 = (False, ?d1\<lparr>isSilent := False\<rparr>)"
    using assms(5) by (simp add: detectSilence_def)
  have all: "detect_all ((v0, t0) # cs @ [(v', t')]) d
      = (False # map (\<lambda>c. minSilenceLength d \<le> snd c - t0) cs @ [False],
         ?d1\<lparr>isSilent := False\<rparr>)"
    by (simp add: first detect_all_append mid last)
  have out: "?out = ?exp @ [False]"
    using all assms(2) by simp
  have mono: "?out ! j"
    if s: "sorted (map snd ((v0, t0) # cs))" and ij: "i \<le> j" "j \<le> length cs"
      and oi: "?out ! i" for i j
  proof -
    have li: "i < length ?exp" and lj: "j < length ?exp" using ij by simp_all
    have "?exp ! i" using oi li unfolding out by (simp only: nth_append if_True)
    then have a: "minSilenceLength d \<le> snd (((v0, t0) # cs) ! i) - t0"
      using li by (simp only: length_map nth_map)
    have "map snd ((v0, t0) # cs) ! i \<le> map snd ((v0, t0) # cs) ! j"
      using s ij lj by (intro sorted_nth_mono) simp_all
    then have "snd (((v0, t0) # cs) ! i) \<le> snd (((v0, t0) # cs) ! j)"
      using li lj by (simp only: length_map nth_map)
    with a have "minSilenceLength d \<le> snd (((v0, t0) # cs) ! j) - t0" by linarith
    then have "?exp ! j" using lj by (simp only: length_map nth_map)
    then show ?thesis using lj unfolding out by (simp only: nth_append if_True)
  qed
  show ?thesis
    using out mono all by (simp only: snd_conv) auto
qed

theorem silence_span_reported_witness:
  "\<not> isSilent (SilenceDetector_new 0.01 1000)
   \<and> 0 < minSilenceLength (SilenceDetector_new 0.01 1000)
   \<and> 0.001 < silenceThreshold (SilenceDetector_new 0.01 1000)
   \<and> list_all (\<lambda>c. fst c < silenceThreshold (SilenceDetector_new 0.01 1000))
        [(0.002, 400 :: int), (0, 1000), (0, 1000)]
   \<and> silenceThreshold (SilenceDetector_new 0.01 1000) \<le> 0.5
   \<and> sorted (map snd [(0.001 :: real, 0 :: int), (0.002, 400), (0, 1000), (0, 1000)])
   \<and> fst (detect_all [(0.001, 0), (0.002, 400), (0, 1000), (0, 1000), (0.5, 1001)]
            (SilenceDetector_new 0.01 1000))
       = [False, False, True, True, False]"
proof -
  let ?d = "SilenceDetector_new 0.01 1000"
  have h1: "\<not> isSilent ?d" and h2: "0 < minSilenceLength ?d"
    and h3: "0.001 < silenceThreshold ?d"
    and h4: "list_all (\<lambda>c. fst c < silenceThreshold ?d)
               [(0.002, 400 :: int), (0, 1000), (0, 1000)]"
    and h5: "silenceThreshold ?d \<le> 0.5"
    by (simp_all add: SilenceDetector_new_def)
  have h6: "sorted (map snd [(0.001 :: real, 0 :: int), (0.002, 400), (0, 1000), (0, 1000)])"
    by simp
  from silence_span_reported [OF h1 h2 h3 h4 h5, of 0 1001]
  have "fst (detect_all [(0.001, 0), (0.002, 400), (0, 1000), (0, 1000), (0.5, 1001)] ?d)
          = [False, False, True, True, False]"
    by (simp add: SilenceDetector_new_def)
  with h1 h2 h3 h4 h5 h6 show ?thesis by (simp only: simp_thms)
qed

section \<open>The recorder's flushes\<close>

lemmas recorder_defs = click_def startRecording_def getUserMediaSettled_def
  ondataavailable_def timerTick_def leakedTimerTick_def stopRecording_def stopTimeout_def processChunk_def
  transcribeSettled_def handleTranscriptionUpdate_def finally_block_def chunkStartTime_def
  createAudioBlob_def Blob_new_def size_of_def initial_def page_props_def fragment_def
  first_window_def two_flushes_def bounds_def Let_def

text \<open>The three ways through \<^verbatim>\<open>processChunk\<close>.\<close>

lemma processChunk_empty: "chunksRef r = [] \<Longrightarrow> processChunk props seen currentTime r = r"
  by (simp add: processChunk_def)

lemma processChunk_discard:
  assumes "chunksRef r \<noteq> []"
    and "currentTime - chunkStartTime r < 500 \<or> size_of (createAudioBlob (chunksRef r)) < 100"
  shows "processChunk props seen currentTime r =
     r\<lparr>chunkCountRef := chunkCountRef r + 1, error := None, chunksRef := [],
       lastChunkTimeRef := currentTime,
       pendingChunks := max 0 (pendingChunks r - 1),
       isTranscribing := (if seen \<le> 1 then False else True)\<rparr>"
  using assms by (auto simp: processChunk_def Let_def finally_block_def chunkStartTime_def)

lemma processChunk_submit:
  assumes "chunksRef r \<noteq> []"
    and "500 \<le> currentTime - chunkStartTime r"
    and "100 \<le> size_of (createAudioBlob (chunksRef r))"
  shows "processChunk props seen currentTime r =
     r\<lparr>chunkCountRef := chunkCountRef r + 1, error := None, isTranscribing := True,
       pendingChunks := pendingChunks r + 1, chunksRef := [], lastChunkTimeRef := currentTime,
       inflight := inflight r @
         [\<lparr>segment = \<lparr>startTime = chunkStartTime r, endTime = currentTime,
                       blob = createAudioBlob (chunksRef r)\<rparr>,
           seenPending = seen,
           readyAt = currentTime + settle_delay (transcriptionService props),
           chunkNo = chunkCountRef r + 1\<rparr>],
       calls := calls r @ [\<lparr>startTime = chunkStartTime r, endTime = currentTime,
                       blob = createAudioBlob (chunksRef r)\<rparr>]\<rparr>"
  using assms by (auto simp: processChunk_def Let_def chunkStartTime_def)

lemma processChunk_cases:
  obtains (empty) "chunksRef r = []" "processChunk props seen currentTime r = r"
  | (discard) "chunksRef r \<noteq> []"
      "currentTime - chunkStartTime r < 500 \<or> size_of (createAudioBlob (chunksRef r)) < 100"
  | (submit) "chunksRef r \<noteq> []" "500 \<le> currentTime - chunkStartTime r"
      "100 \<le> size_of (createAudioBlob (chunksRef r))"
  using processChunk_empty by (cases "chunksRef r = []") force+

text \<open>The two ways a pending call settles.\<close>

lemma transcribe_Inr_bounds:
  assumes "transcribe service tz reply seg = Inr result"
  shows "startTime result = startTime seg" and "endTime result = endTime seg"
  using assms
  by (cases service;
      auto simp: MockTranscriptionService_transcribe_def
                 WhisperTranscriptionService_transcribe_def
           split: if_splits fetch_reply.splits json_reply.splits)+


lemma transcribeSettled_Inl:
  assumes "k < length (inflight r)" and "readyAt (inflight r ! k) \<le> now"
    and "transcribe (transcriptionService props) (toLocaleTimeString props) reply
           (segment (inflight r ! k)) = Inl e"
  shows "transcribeSettled props k now reply r =
     finally_block (seenPending (inflight r ! k))
       (r\<lparr>inflight := take k (inflight r) @ drop (Suc k) (inflight r),
          error := Some (message e)\<rparr>)"
  using assms by (simp add: transcribeSettled_def Let_def)

subsection \<open>Only segments that pass the size test are ever submitted\<close>

lemma only_worthy_processChunk:
  assumes "only_worthy r"
  shows "only_worthy (processChunk props seen currentTime r)"
proof (rule processChunk_cases [where r = r and props = props and seen = seen
    and currentTime = currentTime])
  assume "chunksRef r = []" "processChunk props seen currentTime r = r"
  with assms show ?thesis by simp
next
  assume "chunksRef r \<noteq> []"
    "currentTime - chunkStartTime r < 500 \<or> size_of (createAudioBlob (chunksRef r)) < 100"
  with assms show ?thesis by (simp add: processChunk_discard only_worthy_def)
next
  assume "chunksRef r \<noteq> []" "500 \<le> currentTime - chunkStartTime r"
    "100 \<le> size_of (createAudioBlob (chunksRef r))"
  with assms show ?thesis by (simp add: processChunk_submit only_worthy_def worth_sending_def)
qed

lemma list_all_remove_nth:
  "list_all P xs \<Longrightarrow> list_all P (take k xs @ drop (Suc k) xs)"
  by (auto simp: list_all_iff dest: in_set_takeD in_set_dropD)

lemma only_worthy_transcribeSettled:
  assumes "only_worthy r"
  shows "only_worthy (transcribeSettled props k now reply r)"
proof (cases "k < length (inflight r) \<and> readyAt (inflight r ! k) \<le> now")
  case False
  with assms show ?thesis by (auto simp: transcribeSettled_def)
next
  case True
  let ?p = "inflight r ! k"
  have w: "worth_sending (segment ?p)"
    using assms True by (simp add: only_worthy_def list_all_length)
  have rest: "list_all (\<lambda>p. worth_sending (segment p))
                (take k (inflight r) @ drop (Suc k) (inflight r))"
    using assms by (intro list_all_remove_nth) (simp add: only_worthy_def)
  show ?thesis
  proof (cases "transcribe (transcriptionService props) (toLocaleTimeString props) reply
                  (segment ?p)")
    case (Inl e)
    with True assms rest show ?thesis
      by (simp add: transcribeSettled_def Let_def finally_block_def only_worthy_def)
  next
    case (Inr result)
    from transcribe_Inr_bounds [OF Inr] w
    have "500 \<le> endTime result - startTime result" by (simp add: worth_sending_def)
    with Inr True assms rest show ?thesis
      by (simp add: transcribeSettled_def Let_def finally_block_def only_worthy_def
            handleTranscriptionUpdate_def split: option.splits)
  qed
qed

lemma only_worthy_step:
  assumes "only_worthy r"
  shows "only_worthy (step props e r)"
proof (cases e)
  case (Click now)
  with assms show ?thesis
    by (simp add: click_def stopRecording_def startRecording_def only_worthy_def)
next
  case (GetUserMediaSettled k now outcome)
  with assms show ?thesis
    by (simp add: getUserMediaSettled_def Let_def only_worthy_def split: mic_outcome.splits)
next
  case (DataAvailable d)
  with assms show ?thesis by (simp add: ondataavailable_def only_worthy_def)
next
  case (TimerTick now)
  have "only_worthy (r\<lparr>chunkTimerRef := x\<rparr>)" for x
    using assms by (simp add: only_worthy_def)
  with TimerTick assms show ?thesis
    by (simp add: timerTick_def Let_def only_worthy_processChunk split: option.splits prod.splits)
next
  case (LeakedTimerTick i now)
  have "only_worthy (r\<lparr>leakedTimers := x\<rparr>)" for x
    using assms by (simp add: only_worthy_def)
  with LeakedTimerTick assms show ?thesis
    by (simp add: leakedTimerTick_def Let_def only_worthy_processChunk)
next
  case (StopTimeout now)
  have a: "only_worthy (r\<lparr>stopTimeouts := x\<rparr>)" for x
    using assms by (simp add: only_worthy_def)
  have b: "only_worthy (q\<lparr>isRecording := False\<rparr>)" if "only_worthy q" for q
    using that by (simp add: only_worthy_def)
  from StopTimeout assms show ?thesis
    by (auto simp: stopTimeout_def Let_def split: list.splits
          intro!: b only_worthy_processChunk a)
next
  case (TranscribeSettled k now reply)
  with assms show ?thesis by (simp add: only_worthy_transcribeSettled)
qed

lemma only_worthy_run: "only_worthy r \<Longrightarrow> only_worthy (run props es r)"
  by (induction es arbitrary: r) (simp_all add: only_worthy_step)

lemma only_worthy_initial: "only_worthy initial"
  by (simp add: only_worthy_def initial_def)

text \<open>
  C1.  A flush whose segment would last less than 500 ms, or whose payload is smaller
  than 100 bytes, drops the segment: the buffer is emptied, \<^verbatim>\<open>transcribe\<close> is not
  called, no call is left pending and nothing reaches the caller's list.  Hence after
  any sequence of events from the initial state, every segment ever submitted, every
  pending call and every delivered result spans at least 500 ms, and every submitted
  payload has at least 100 bytes.
\<close>

theorem tiny_segment_discarded:
  assumes "chunksRef r \<noteq> []"
    and "currentTime - chunkStartTime r < 500 \<or> size_of (createAudioBlob (chunksRef r)) < 100"
  shows "calls (processChunk props seen currentTime r) = calls r
       \<and> inflight (processChunk props seen currentTime r) = inflight r
       \<and> transcriptions (processChunk props seen currentTime r) = transcriptions r
       \<and> chunksRef (processChunk props seen currentTime r) = []
       \<and> only_worthy (run props es initial)"
  using assms by (simp add: processChunk_discard only_worthy_run only_worthy_initial)

theorem tiny_segment_discarded_witness:
  "chunksRef (run (page_props MockTranscriptionService)
      [Click 0, GetUserMediaSettled 0 0 Granted, DataAvailable (fragment 40)] initial) \<noteq> []
   \<and> size_of (createAudioBlob (chunksRef (run (page_props MockTranscriptionService)
      [Click 0, GetUserMediaSettled 0 0 Granted, DataAvailable (fragment 40)] initial))) < 100
   \<and> calls (processChunk (page_props MockTranscriptionService) 0 6000
        (run (page_props MockTranscriptionService)
           [Click 0, GetUserMediaSettled 0 0 Granted, DataAvailable (fragment 40)] initial)) = []
   \<and> inflight (processChunk (page_props MockTranscriptionService) 0 6000
        (run (page_props MockTranscriptionService)
           [Click 0, GetUserMediaSettled 0 0 Granted, DataAvailable (fragment 40)] initial)) = []
   \<and> chunksRef (run (page_props MockTranscriptionService) first_window initial) \<noteq> []
   \<and> 300 - chunkStartTime (run (page_props MockTranscriptionService) first_window initial) < 500
   \<and> calls (processChunk (page_props MockTranscriptionService) 0 300
        (run (page_props MockTranscriptionService) first_window initial)) = []
   \<and> only_worthy (run (page_props MockTranscriptionService) two_flushes initial)"
proof -
  let ?props = "page_props MockTranscriptionService"
  let ?r = "run ?props [Click 0, GetUserMediaSettled 0 0 Granted, DataAvailable (fragment 40)]
              initial"
  let ?q = "run ?props first_window initial"
  have r1: "chunksRef ?r \<noteq> []" by (simp add: recorder_defs)
  have r2: "size_of (createAudioBlob (chunksRef ?r)) < 100" by (simp add: recorder_defs)
  then have r3: "6000 - chunkStartTime ?r < 500 \<or> size_of (createAudioBlob (chunksRef ?r)) < 100"
    by (rule disjI2)
  have q1: "chunksRef ?q \<noteq> []" by (simp add: recorder_defs)
  have q2: "300 - chunkStartTime ?q < 500" by (simp add: recorder_defs)
  then have q3: "300 - chunkStartTime ?q < 500 \<or> size_of (createAudioBlob (chunksRef ?q)) < 100"
    by (rule disjI1)
  have c0: "calls ?r = []" "inflight ?r = []" "calls ?q = []" by (simp_all add: recorder_defs)
  from tiny_segment_discarded [OF r1 r3, of ?props 0 two_flushes]
       tiny_segment_discarded [OF q1 q3, of ?props 0 two_flushes] r1 r2 q1 q2 c0
  show ?thesis by (simp only: simp_thms)
qed

text \<open>
  C7.  A flush whose payload is empty or below 100 bytes is dealt with on the spot and
  silently: \<^verbatim>\<open>transcribe\<close> is not called, no call is left pending, nothing reaches the
  caller, and no error message is shown (with an empty buffer the message is left as
  it was, otherwise it is cleared).  The remote service has a guard of its own: on a
  payload of size zero it fails with the error \<^verbatim>\<open>Empty audio blob\<close>.
\<close>

theorem small_payload_skipped_silently:
  assumes "size_of (createAudioBlob (chunksRef r)) < 100"
  shows "calls (processChunk props seen currentTime r) = calls r
       \<and> inflight (processChunk props seen currentTime r) = inflight r
       \<and> transcriptions (processChunk props seen currentTime r) = transcriptions r
       \<and> error (processChunk props seen currentTime r)
           = (if chunksRef r = [] then error r else None)
       \<and> (size_of (blob seg) = 0 \<longrightarrow>
            WhisperTranscriptionService_transcribe apiKey reply seg
              = Inl (Error ''Empty audio blob''))"
proof (cases "chunksRef r = []")
  case True
  then show ?thesis
    by (simp add: processChunk_empty WhisperTranscriptionService_transcribe_def)
next
  case False
  with assms show ?thesis
    by (simp add: processChunk_discard WhisperTranscriptionService_transcribe_def)
qed

theorem small_payload_skipped_silently_witness:
  "size_of (createAudioBlob (chunksRef (run (page_props (WhisperTranscriptionService ''sk-1''))
      [Click 0, GetUserMediaSettled 0 0 Granted, DataAvailable (fragment 99)] initial))) < 100
   \<and> calls (run (page_props (WhisperTranscriptionService ''sk-1''))
      [Click 0, GetUserMediaSettled 0 0 Granted, DataAvailable (fragment 99), TimerTick 6000]
      initial) = []
   \<and> error (run (page_props (WhisperTranscriptionService ''sk-1''))
      [Click 0, GetUserMediaSettled 0 0 Granted, DataAvailable (fragment 99), TimerTick 6000]
      initial) = None
   \<and> size_of (blob \<lparr>startTime = 0, endTime = 6000, blob = createAudioBlob []\<rparr>) = 0
   \<and> WhisperTranscriptionService_transcribe ''sk-1'' (Response 200 ''(json)'' (JsonText (Some (ascii ''hi''))))
        \<lparr>startTime = 0, endTime = 6000, blob = createAudioBlob []\<rparr>
       = Inl (Error ''Empty audio blob'')"
proof -
  let ?props = "page_props (WhisperTranscriptionService ''sk-1'')"
  let ?r = "run ?props [Click 0, GetUserMediaSettled 0 0 Granted, DataAvailable (fragment 99)]
              initial"
  let ?r' = "?r\<lparr>chunkTimerRef := Some (12000, 0)\<rparr>"
  let ?seg = "\<lparr>startTime = 0, endTime = 6000, blob = createAudioBlob []\<rparr>"
  have h: "size_of (createAudioBlob (chunksRef ?r)) < 100" by (simp add: recorder_defs)
  have z: "size_of (blob ?seg) = 0" by (simp add: recorder_defs)
  have tick: "run ?props [Click 0, GetUserMediaSettled 0 0 Granted, DataAvailable (fragment 99),
                TimerTick 6000] initial
              = processChunk ?props 0 6000 ?r'"
    by (simp add: click_def startRecording_def getUserMediaSettled_def ondataavailable_def
          timerTick_def initial_def page_props_def fragment_def size_of_def Let_def)
  have h': "size_of (createAudioBlob (chunksRef ?r')) < 100"
    using h by simp
  have c0: "calls ?r' = []" "chunksRef ?r' \<noteq> []" by (simp_all add: recorder_defs)
  have main: "calls (processChunk ?props 0 6000 ?r') = []
        \<and> error (processChunk ?props 0 6000 ?r') = None
        \<and> WhisperTranscriptionService_transcribe ''sk-1''
             (Response 200 ''(json)'' (JsonText (Some (ascii ''hi'')))) ?seg
           = Inl (Error ''Empty audio blob'')"
    using small_payload_skipped_silently [OF h', of ?props 0 6000 ?seg "''sk-1''"
         "Response 200 ''(json)'' (JsonText (Some (ascii ''hi'')))"] z c0
    by (simp only: simp_thms if_False)
  show ?thesis unfolding tick using h z main by blast
qed

subsection \<open>Time bounds of a segment\<close>

lemma run_append: "run props (xs @ ys) r = run props ys (run props xs r)"
  by (induction xs arbitrary: r) simp_all

lemma processChunk_lastChunkTimeRef:
  "chunksRef r \<noteq> [] \<Longrightarrow> lastChunkTimeRef (processChunk props seen t r) = t"
  by (simp add: processChunk_def Let_def finally_block_def)

lemma processChunk_frame:
  "startTimeRef (processChunk props seen t r) = startTimeRef r"
  "chunkTimerRef (processChunk props seen t r) = chunkTimerRef r"
  "leakedTimers (processChunk props seen t r) = leakedTimers r"
  "stopTimeouts (processChunk props seen t r) = stopTimeouts r"
  "isRecording (processChunk props seen t r) = isRecording r"
  "chunksRef (processChunk props seen t r) = []"
  by (simp_all add: processChunk_def Let_def finally_block_def)

lemma processChunk_calls:
  assumes "chunksRef r \<noteq> []"
  shows "calls (processChunk props seen t r)
     = calls r @
        (if t - chunkStartTime r < 500 \<or> size_of (createAudioBlob (chunksRef r)) < 100
         then []
         else [\<lparr>startTime = chunkStartTime r, endTime = t,
                 blob = createAudioBlob (chunksRef r)\<rparr>])"
proof (cases "t - chunkStartTime r < 500 \<or> size_of (createAudioBlob (chunksRef r)) < 100")
  case True
  with assms show ?thesis by (simp add: processChunk_discard)
next
  case False
  with assms show ?thesis by (simp add: processChunk_submit)
qed

text \<open>An event that is a flush runs \<^verbatim>\<open>processChunk\<close> on a buffer that is not empty.\<close>

lemma flush_step:
  assumes "flush_time e r = Some t"
  shows "\<exists>seen q. step props e r = processChunk props seen t q \<and> chunksRef q = chunksRef r
           \<and> chunksRef r \<noteq> [] \<and> calls q = calls r
           \<and> lastChunkTimeRef q = lastChunkTimeRef r \<and> startTimeRef q = startTimeRef r"
proof (cases e)
  case (TimerTick now)
  with assms obtain due seen where
    c: "chunkTimerRef r = Some (due, seen)" "due \<le> now" "chunksRef r \<noteq> []" "t = now"
    by (auto split: option.splits if_splits)
  have "step props e r
      = processChunk props seen t (r\<lparr>chunkTimerRef := Some (due + chunkInterval props, seen)\<rparr>)"
    using TimerTick c by (simp add: timerTick_def Let_def)
  with c show ?thesis
    by (intro exI [of _ seen]
          exI [of _ "r\<lparr>chunkTimerRef := Some (due + chunkInterval props, seen)\<rparr>"])
       simp
next
  case (LeakedTimerTick i now)
  with assms have
    c: "i < length (leakedTimers r)" "fst (leakedTimers r ! i) \<le> now" "chunksRef r \<noteq> []"
      "t = now"
    by (auto split: if_splits)
  let ?q = "r\<lparr>leakedTimers := (leakedTimers r)
              [i := (fst (leakedTimers r ! i) + chunkInterval props, snd (leakedTimers r ! i))]\<rparr>"
  have "step props e r = processChunk props (snd (leakedTimers r ! i)) t ?q"
    using LeakedTimerTick c by (simp add: leakedTimerTick_def Let_def)
  with c show ?thesis
    by (intro exI [of _ "snd (leakedTimers r ! i)"] exI [of _ ?q]) simp
next
  case (StopTimeout now)
  with assms obtain due seen rest where
    c: "stopTimeouts r = (due, seen) # rest" "due \<le> now" "chunksRef r \<noteq> []" "t = now"
    by (auto split: list.splits if_splits)
  have "step props e r
      = (processChunk props seen t (r\<lparr>stopTimeouts := rest\<rparr>))\<lparr>isRecording := False\<rparr>"
    using StopTimeout c by (simp add: stopTimeout_def Let_def)
  also have "\<dots> = processChunk props seen t (r\<lparr>stopTimeouts := rest, isRecording := False\<rparr>)"
    using c by (simp add: processChunk_def Let_def finally_block_def chunkStartTime_def)
  finally show ?thesis using c
    by (intro exI [of _ seen] exI [of _ "r\<lparr>stopTimeouts := rest, isRecording := False\<rparr>"])
       simp
qed (use assms in simp_all)

lemma flush_calls:
  assumes "flush_time e r = Some t"
  shows "calls (step props e r)
     = calls r @
        (if t - chunkStartTime r < 500 \<or> size_of (createAudioBlob (chunksRef r)) < 100
         then []
         else [\<lparr>startTime = chunkStartTime r, endTime = t,
                 blob = createAudioBlob (chunksRef r)\<rparr>])"
    and "lastChunkTimeRef (step props e r) = t"
    and "startTimeRef (step props e r) = startTimeRef r"
proof -
  from flush_step [OF assms, of props] obtain seen q where
    q: "step props e r = processChunk props seen t q" "chunksRef q = chunksRef r"
       "chunksRef r \<noteq> []" "calls q = calls r"
       "lastChunkTimeRef q = lastChunkTimeRef r" "startTimeRef q = startTimeRef r"
    by blast
  then have ne: "chunksRef q \<noteq> []" by simp
  have cs: "chunkStartTime q = chunkStartTime r"
    using q by (simp add: chunkStartTime_def)
  show "calls (step props e r)
     = calls r @
        (if t - chunkStartTime r < 500 \<or> size_of (createAudioBlob (chunksRef r)) < 100
         then []
         else [\<lparr>startTime = chunkStartTime r, endTime = t,
                 blob = createAudioBlob (chunksRef r)\<rparr>])"
    using processChunk_calls [OF ne, of props seen t] q cs by simp
  show "lastChunkTimeRef (step props e r) = t"
    using processChunk_lastChunkTimeRef [OF ne, of props seen t] q by simp
  show "startTimeRef (step props e r) = startTimeRef r"
    using q by (simp add: processChunk_frame)
qed

text \<open>An event that is no flush submits nothing and leaves the time of the last flush.\<close>

lemma no_flush_step:
  assumes "flush_time e r = None"
  shows "calls (step props e r) = calls r"
    and "start_time e r = None \<Longrightarrow> lastChunkTimeRef (step props e r) = lastChunkTimeRef r"
    and "start_time e r = None \<Longrightarrow> startTimeRef (step props e r) = startTimeRef r"
    and "start_time e r = None \<Longrightarrow> chunkCountRef (step props e r) = chunkCountRef r"
    and "start_time e r = Some now \<Longrightarrow>
           lastChunkTimeRef (step props e r) = now \<and> startTimeRef (step props e r) = now"
proof -
  have pe: "processChunk props seen t q = q" if "chunksRef q = []" for seen t q
    using that by (simp add: processChunk_def)
  show "calls (step props e r) = calls r"
    using assms
    by (cases e)
       (auto simp: click_def startRecording_def stopRecording_def getUserMediaSettled_def
             ondataavailable_def timerTick_def leakedTimerTick_def stopTimeout_def
             transcribeSettled_def finally_block_def handleTranscriptionUpdate_def Let_def pe
             split: option.splits if_splits list.splits mic_outcome.splits sum.splits)
  show "lastChunkTimeRef (step props e r) = lastChunkTimeRef r" if "start_time e r = None"
    using assms that
    by (cases e)
       (auto simp: click_def startRecording_def stopRecording_def getUserMediaSettled_def
             ondataavailable_def timerTick_def leakedTimerTick_def stopTimeout_def
             transcribeSettled_def finally_block_def handleTranscriptionUpdate_def Let_def pe
             split: option.splits if_splits list.splits mic_outcome.splits sum.splits)
  show "startTimeRef (step props e r) = startTimeRef r" if "start_time e r = None"
    using assms that
    by (cases e)
       (auto simp: click_def startRecording_def stopRecording_def getUserMediaSettled_def
             ondataavailable_def timerTick_def leakedTimerTick_def stopTimeout_def
             transcribeSettled_def finally_block_def handleTranscriptionUpdate_def Let_def pe
             split: option.splits if_splits list.splits mic_outcome.splits sum.splits)
  show "chunkCountRef (step props e r) = chunkCountRef r" if "start_time e r = None"
    using assms that
    by (cases e)
       (auto simp: click_def startRecording_def stopRecording_def getUserMediaSettled_def
             ondataavailable_def timerTick_def leakedTimerTick_def stopTimeout_def
             transcribeSettled_def finally_block_def handleTranscriptionUpdate_def Let_def pe
             split: option.splits if_splits list.splits mic_outcome.splits sum.splits)
  show "lastChunkTimeRef (step props e r) = now \<and> startTimeRef (step props e r) = now"
    if "start_time e r = Some now"
    using that
    by (cases e) (auto simp: click_def startRecording_def split: if_splits)
qed

lemma flush_time_of: "flush_time e r = Some t \<Longrightarrow> time_of e = Some t"
  by (cases e) (auto split: option.splits if_splits list.splits)

lemma start_time_of: "start_time e r = Some t \<Longrightarrow> time_of e = Some t"
  by (cases e) (auto split: if_splits)

text \<open>
  Along a run in which the clock does not run backwards, \<^verbatim>\<open>lastChunkTimeRef\<close> is
  the time of the latest flush or start, and is not before \<^verbatim>\<open>startTimeRef\<close>.
\<close>

lemma mark_step:
  assumes "lastChunkTimeRef r = m" and "0 \<le> startTimeRef r" and "startTimeRef r \<le> m"
    and "m \<le> t0" and "\<forall>t'. time_of e = Some t' \<longrightarrow> t0 \<le> t'"
  shows "lastChunkTimeRef (step props e r)
           = (case flush_time e r of
                Some t \<Rightarrow> t
              | None \<Rightarrow> (case start_time e r of Some t \<Rightarrow> t | None \<Rightarrow> m))"
    and "0 \<le> startTimeRef (step props e r)"
    and "startTimeRef (step props e r) \<le> lastChunkTimeRef (step props e r)"
    and "lastChunkTimeRef (step props e r) \<le> (case time_of e of None \<Rightarrow> t0 | Some t' \<Rightarrow> t')"
proof -
  consider (flush) t where "flush_time e r = Some t"
    | (start) t where "flush_time e r = None" "start_time e r = Some t"
    | (none) "flush_time e r = None" "start_time e r = None"
    by (cases "flush_time e r"; cases "start_time e r") auto
  then have "lastChunkTimeRef (step props e r)
           = (case flush_time e r of
                Some t \<Rightarrow> t
              | None \<Rightarrow> (case start_time e r of Some t \<Rightarrow> t | None \<Rightarrow> m))
      \<and> 0 \<le> startTimeRef (step props e r)
      \<and> startTimeRef (step props e r) \<le> lastChunkTimeRef (step props e r)
      \<and> lastChunkTimeRef (step props e r) \<le> (case time_of e of None \<Rightarrow> t0 | Some t' \<Rightarrow> t')"
  proof cases
    case flush
    from flush_time_of [OF flush] assms(5) have "t0 \<le> t" by simp
    with flush flush_calls(2,3) [OF flush, of props] flush_time_of [OF flush] assms(2,3,4)
    show ?thesis by simp
  next
    case start
    from start_time_of [OF start(2)] assms(5) have "t0 \<le> t" by simp
    with start no_flush_step(5) [OF start(1), of t props] start_time_of [OF start(2)]
      assms(2,3,4)
    show ?thesis by simp
  next
    case none
    with no_flush_step(2,3) [OF none(1), of props] assms
    show ?thesis by (auto split: option.splits)
  qed
  then show "lastChunkTimeRef (step props e r)
           = (case flush_time e r of
                Some t \<Rightarrow> t
              | None \<Rightarrow> (case start_time e r of Some t \<Rightarrow> t | None \<Rightarrow> m))"
    and "0 \<le> startTimeRef (step props e r)"
    and "startTimeRef (step props e r) \<le> lastChunkTimeRef (step props e r)"
    and "lastChunkTimeRef (step props e r) \<le> (case time_of e of None \<Rightarrow> t0 | Some t' \<Rightarrow> t')"
    by blast+
qed

lemma run_mark:
  assumes "lastChunkTimeRef r = m" and "0 \<le> startTimeRef r" and "startTimeRef r \<le> m"
    and "m \<le> t0" and "chronological t0 es"
  shows "lastChunkTimeRef (run props es r) = previous_mark props es r m
       \<and> 0 \<le> startTimeRef (run props es r)
       \<and> startTimeRef (run props es r) \<le> lastChunkTimeRef (run props es r)"
  using assms
proof (induction es arbitrary: r m t0)
  case Nil
  then show ?case by simp
next
  case (Cons e es)
  let ?m = "case flush_time e r of
              Some t \<Rightarrow> t
            | None \<Rightarrow> (case start_time e r of Some t \<Rightarrow> t | None \<Rightarrow> m)"
  let ?t = "case time_of e of None \<Rightarrow> t0 | Some t' \<Rightarrow> t'"
  have later: "\<forall>t'. time_of e = Some t' \<longrightarrow> t0 \<le> t'"
    using Cons.prems(5) by (auto split: option.splits)
  have rest: "chronological ?t es"
    using Cons.prems(5) by (auto split: option.splits)
  note st = mark_step [OF Cons.prems(1-4) later, of props]
  have "lastChunkTimeRef (run props es (step props e r))
           = previous_mark props es (step props e r) ?m
       \<and> 0 \<le> startTimeRef (run props es (step props e r))
       \<and> startTimeRef (run props es (step props e r))
           \<le> lastChunkTimeRef (run props es (step props e r))"
  proof (rule Cons.IH [of "step props e r" ?m ?t])
    show "lastChunkTimeRef (step props e r) = ?m" by (rule st(1))
    show "0 \<le> startTimeRef (step props e r)" by (rule st(2))
    show "startTimeRef (step props e r) \<le> ?m" using st(1,3) by simp
    show "?m \<le> ?t" using st(1,4) by simp
    show "chronological ?t es" by (rule rest)
  qed
  then show ?case by simp
qed

lemma chunkStartTime_run:
  assumes "chronological 0 es"
  shows "chunkStartTime (run props es initial) = previous_mark props es initial 0"
proof -
  have "lastChunkTimeRef initial = 0" "0 \<le> startTimeRef initial" "startTimeRef initial \<le> 0"
    by (simp_all add: initial_def)
  from run_mark [OF this _ assms, of props]
  show ?thesis by (auto simp: chunkStartTime_def)
qed

text \<open>What a stop leaves to happen.\<close>

lemma stopRecording_then:
  "chunkTimerRef (stopRecording now q) = None"
  "timerTick props t (stopRecording now q) = stopRecording now q"
  "stopTimeouts q = [] \<Longrightarrow> t < now + 1000 \<Longrightarrow>
     stopTimeout props t (stopRecording now q) = stopRecording now q"
  "stopTimeouts q = [] \<Longrightarrow> now + 1000 \<le> t \<Longrightarrow>
     stopTimeout props t (stopRecording now q)
       = (if chunksRef q = [] then (stopRecording now q)\<lparr>stopTimeouts := []\<rparr>
          else processChunk props (pendingChunks q) t ((stopRecording now q)\<lparr>stopTimeouts := []\<rparr>))
         \<lparr>isRecording := False\<rparr>"
  by (simp_all add: stopRecording_def timerTick_def stopTimeout_def Let_def)

lemma stopTimeout_done:
  assumes "stopTimeouts q = []" and "now + 1000 \<le> t"
  shows "stopTimeout props t' (stopTimeout props t (stopRecording now q))
           = stopTimeout props t (stopRecording now q)"
    and "timerTick props t' (stopTimeout props t (stopRecording now q))
           = stopTimeout props t (stopRecording now q)"
    and "\<not> isRecording (stopTimeout props t (stopRecording now q))"
proof -
  let ?s = "stopTimeout props t (stopRecording now q)"
  have "stopTimeouts ?s = []" "chunkTimerRef ?s = None" "\<not> isRecording ?s"
    using assms
    by (simp_all add: stopRecording_then(4) processChunk_frame) (simp_all add: stopRecording_def)
  then show "stopTimeout props t' ?s = ?s" "timerTick props t' ?s = ?s" "\<not> isRecording ?s"
    by (simp_all add: stopTimeout_def timerTick_def)
qed

text \<open>
  C2, as the code has it.  After the stop at 13000 the last flush is run by a timer of
  1000 ms: at 13000 nothing is flushed, and the flush at 14000 reads the clock then, so
  the last segment is [12000, 14000] and not [12000, 13000].
\<close>

theorem final_flush_bounds_counterexample:
  "map bounds (calls (run (page_props MockTranscriptionService)
      (two_flushes @ [DataAvailable (fragment 4000), Click 13000,
                      DataAvailable (fragment 4000), StopTimeout 13000]) initial))
     = [(0, 6000), (6000, 12000)]
   \<and> map bounds (calls (run (page_props MockTranscriptionService)
      (two_flushes @ [DataAvailable (fragment 4000), Click 13000,
                      DataAvailable (fragment 4000), StopTimeout 14000]) initial))
     = [(0, 6000), (6000, 12000), (12000, 14000)]"
  by (simp add: recorder_defs)

text \<open>
  C2, amended.  Take any run of events from the initial state in which the clock
  starts at 0 or later and does not run backwards.  An event that is a flush (a timer
  callback that comes due and finds fragments buffered) at clock reading \<open>t\<close> submits
  at most one segment: none if the segment is too short or too small, and otherwise
  the segment from the time of the previous flush, or of the start of the recording
  if there was no flush since, to \<open>t\<close>.  It leaves \<open>t\<close> as the time of the last flush
  whether or not it submits.  An event that is no flush submits nothing.

  A stop clears the component's timer, so that no further tick of it flushes, and
  sets one timer for the last flush.  Nothing is flushed before 1000 ms have passed;
  when they have, the last flush runs once, the recorder is idle, and neither that
  timer nor the component's interval timer does anything more.

  In the run started at 0 with an interval of 6000 ms the flushes at 6000 and 12000
  submit [0, 6000] and [6000, 12000]; after a stop at 13000 the last flush runs at
  14000 and submits [12000, 14000] if fragments are buffered and nothing otherwise,
  and later timer events submit nothing more.
\<close>

theorem segment_bounds:
  "(chronological 0 es \<and> flush_time e (run props es initial) = Some t \<longrightarrow>
      calls (run props (es @ [e]) initial)
        = calls (run props es initial) @
            (if t - previous_mark props es initial 0 < 500
                \<or> size_of (createAudioBlob (chunksRef (run props es initial))) < 100
             then []
             else [\<lparr>startTime = previous_mark props es initial 0, endTime = t,
                     blob = createAudioBlob (chunksRef (run props es initial))\<rparr>])
      \<and> lastChunkTimeRef (run props (es @ [e]) initial) = t)
   \<and> (flush_time e (run props es initial) = None \<longrightarrow>
        calls (run props (es @ [e]) initial) = calls (run props es initial))
   \<and> (chunksRef r \<noteq> [] \<longrightarrow> lastChunkTimeRef (processChunk props seen t r) = t)
   \<and> (\<not> isRecording q \<longrightarrow>
        lastChunkTimeRef (startRecording now q) = now
        \<and> startTimeRef (startRecording now q) = now)
   \<and> chunkTimerRef (stopRecording now q) = None
   \<and> timerTick props t' (stopRecording now q) = stopRecording now q
   \<and> stopTimeouts (stopRecording now q) = stopTimeouts q @ [(now + 1000, pendingChunks q)]
   \<and> (stopTimeouts q = [] \<and> t' < now + 1000 \<longrightarrow>
        stopTimeout props t' (stopRecording now q) = stopRecording now q)
   \<and> (stopTimeouts q = [] \<and> now + 1000 \<le> t \<longrightarrow>
        stopTimeout props t (stopRecording now q)
          = (if chunksRef q = [] then (stopRecording now q)\<lparr>stopTimeouts := []\<rparr>
             else processChunk props (pendingChunks q) t
                    ((stopRecording now q)\<lparr>stopTimeouts := []\<rparr>))
            \<lparr>isRecording := False\<rparr>
        \<and> stopTimeout props t' (stopTimeout props t (stopRecording now q))
            = stopTimeout props t (stopRecording now q)
        \<and> timerTick props t' (stopTimeout props t (stopRecording now q))
            = stopTimeout props t (stopRecording now q)
        \<and> \<not> isRecording (stopTimeout props t (stopRecording now q)))
   \<and> map bounds (calls (run (page_props MockTranscriptionService)
        (two_flushes @ [DataAvailable (fragment 4000), Click 13000,
                        DataAvailable (fragment 4000), StopTimeout 14000]) initial))
       = [(0, 6000), (6000, 12000), (12000, 14000)]
   \<and> map bounds (calls (run (page_props MockTranscriptionService)
        (two_flushes @ [Click 13000, StopTimeout 14000]) initial))
       = [(0, 6000), (6000, 12000)]
   \<and> map bounds (calls (run (page_props MockTranscriptionService)
        (two_flushes @ [DataAvailable (fragment 4000), Click 13000,
                        DataAvailable (fragment 4000), StopTimeout 14000,
                        DataAvailable (fragment 4000), StopTimeout 15000,
                        TimerTick 18000]) initial))
       = [(0, 6000), (6000, 12000), (12000, 14000)]"
proof -
  have flush: "calls (run props (es @ [e]) initial)
        = calls (run props es initial) @
            (if t - previous_mark props es initial 0 < 500
                \<or> size_of (createAudioBlob (chunksRef (run props es initial))) < 100
             then []
             else [\<lparr>startTime = previous_mark props es initial 0, endTime = t,
                     blob = createAudioBlob (chunksRef (run props es initial))\<rparr>])
      \<and> lastChunkTimeRef (run props (es @ [e]) initial) = t"
    if "chronological 0 es" "flush_time e (run props es initial) = Some t"
    using flush_calls(1,2) [OF that(2), of props] chunkStartTime_run [OF that(1), of props]
    by (simp add: run_append)
  have other: "calls (run props (es @ [e]) initial) = calls (run props es initial)"
    if "flush_time e (run props es initial) = None"
    using no_flush_step(1) [OF that, of props] by (simp add: run_append)
  have start: "lastChunkTimeRef (startRecording now q) = now
        \<and> startTimeRef (startRecording now q) = now" if "\<not> isRecording q"
    using that by (simp add: startRecording_def)
  have set: "stopTimeouts (stopRecording now q) = stopTimeouts q @ [(now + 1000, pendingChunks q)]"
    by (simp add: stopRecording_def)
  have a: "map bounds (calls (run (page_props MockTranscriptionService)
        (two_flushes @ [DataAvailable (fragment 4000), Click 13000,
                        DataAvailable (fragment 4000), StopTimeout 14000]) initial))
       = [(0, 6000), (6000, 12000), (12000, 14000)]"
    by (simp add: recorder_defs)
  have b: "map bounds (calls (run (page_props MockTranscriptionService)
        (two_flushes @ [Click 13000, StopTimeout 14000]) initial))
       = [(0, 6000), (6000, 12000)]"
    by (simp add: recorder_defs)
  have c: "map bounds (calls (run (page_props MockTranscriptionService)
        (two_flushes @ [DataAvailable (fragment 4000), Click 13000,
                        DataAvailable (fragment 4000), StopTimeout 14000,
                        DataAvailable (fragment 4000), StopTimeout 15000,
                        TimerTick 18000]) initial))
       = [(0, 6000), (6000, 12000), (12000, 14000)]"
    by (simp add: recorder_defs)
  show ?thesis
    using flush other
      processChunk_lastChunkTimeRef [where r = r and props = props and seen = seen and t = t]
      start
      stopRecording_then(1) [where now = now and q = q]
      stopRecording_then(2) [where props = props and t = t' and now = now and q = q]
      stopRecording_then(3) [where props = props and t = t' and now = now and q = q]
      stopRecording_then(4) [where props = props and t = t and now = now and q = q]
      stopTimeout_done(1,2) [where props = props and t = t and t' = t' and now = now and q = q]
      stopTimeout_done(3) [where props = props and t = t and now = now and q = q]
      set a b c
    by blast
qed

theorem segment_bounds_witness:
  "chronological 0 first_window
   \<and> flush_time (TimerTick 6000) (run (page_props MockTranscriptionService) first_window initial)
       = Some 6000
   \<and> previous_mark (page_props MockTranscriptionService) first_window initial 0 = 0
   \<and> map bounds (calls (run (page_props MockTranscriptionService)
         (first_window @ [TimerTick 6000]) initial)) = [(0, 6000)]
   \<and> lastChunkTimeRef (run (page_props MockTranscriptionService)
         (first_window @ [TimerTick 6000]) initial) = 6000
   \<and> flush_time (Click 5000) (run (page_props MockTranscriptionService) first_window initial)
       = None
   \<and> calls (run (page_props MockTranscriptionService) (first_window @ [Click 5000]) initial) = []
   \<and> chunksRef (run (page_props MockTranscriptionService) first_window initial) \<noteq> []
   \<and> calls (processChunk (page_props MockTranscriptionService) 0 300
         (run (page_props MockTranscriptionService) first_window initial)) = []
   \<and> lastChunkTimeRef (processChunk (page_props MockTranscriptionService) 0 300
         (run (page_props MockTranscriptionService) first_window initial)) = 300
   \<and> \<not> isRecording initial
   \<and> lastChunkTimeRef (startRecording 42 initial) = 42
   \<and> stopTimeouts (run (page_props MockTranscriptionService) two_flushes initial) = []
   \<and> (13000 :: int) < 13000 + 1000
   \<and> stopTimeout (page_props MockTranscriptionService) 13000
         (stopRecording 13000 (run (page_props MockTranscriptionService) two_flushes initial))
       = stopRecording 13000 (run (page_props MockTranscriptionService) two_flushes initial)
   \<and> (13000 :: int) + 1000 \<le> 14000
   \<and> \<not> isRecording (stopTimeout (page_props MockTranscriptionService) 14000
         (stopRecording 13000 (run (page_props MockTranscriptionService) two_flushes initial)))"
proof -
  let ?props = "page_props MockTranscriptionService"
  let ?r = "run ?props first_window initial"
  let ?q = "run ?props two_flushes initial"
  have h1: "chronological 0 first_window" by (simp add: first_window_def)
  have h2: "flush_time (TimerTick 6000) ?r = Some 6000" by (simp add: recorder_defs)
  have h3: "flush_time (Click 5000) ?r = None" by simp
  have h4: "chunksRef ?r \<noteq> []" by (simp add: recorder_defs)
  have h5: "\<not> isRecording initial" by (simp add: initial_def)
  have h6: "stopTimeouts ?q = []" by (simp add: recorder_defs)
  have h7: "(13000 :: int) < 13000 + 1000" and h8: "(13000 :: int) + 1000 \<le> 14000"
    by simp_all
  have c0: "previous_mark ?props first_window initial 0 = 0" "calls ?r = []"
      "size_of (createAudioBlob (chunksRef ?r)) = 12000"
      "calls (processChunk ?props 0 300 ?r) = []"
    by (simp_all add: recorder_defs)
  note flush = segment_bounds [where props = ?props and es = first_window
      and e = "TimerTick 6000" and t = 6000]
  have "calls (run ?props (first_window @ [TimerTick 6000]) initial)
          = calls ?r @
            (if 6000 - previous_mark ?props first_window initial 0 < 500
                \<or> size_of (createAudioBlob (chunksRef ?r)) < 100
             then []
             else [\<lparr>startTime = previous_mark ?props first_window initial 0, endTime = 6000,
                     blob = createAudioBlob (chunksRef ?r)\<rparr>])"
    and w2: "lastChunkTimeRef (run ?props (first_window @ [TimerTick 6000]) initial) = 6000"
    using flush h1 h2 by blast+
  then have w1: "map bounds (calls (run ?props (first_window @ [TimerTick 6000]) initial))
                   = [(0, 6000)]"
    by (simp only: c0) (simp add: bounds_def)
  have "calls (run ?props (first_window @ [Click 5000]) initial) = calls ?r"
    using segment_bounds [where props = ?props and es = first_window and e = "Click 5000"] h3
    by blast
  then have w3: "calls (run ?props (first_window @ [Click 5000]) initial) = []"
    by (simp only: c0)
  have w4: "lastChunkTimeRef (processChunk ?props 0 300 ?r) = 300"
    using segment_bounds [where props = ?props and r = ?r and seen = 0 and t = 300] h4
    by blast
  have w5: "lastChunkTimeRef (startRecording 42 initial) = 42"
    using segment_bounds [where q = initial and now = 42] h5 by blast
  have w6: "stopTimeout ?props 13000 (stopRecording 13000 ?q) = stopRecording 13000 ?q"
    using segment_bounds [where props = ?props and q = ?q and now = 13000 and t' = 13000]
      h6 h7 by blast
  have w7: "\<not> isRecording (stopTimeout ?props 14000 (stopRecording 13000 ?q))"
    using segment_bounds [where props = ?props and q = ?q and now = 13000 and t = 14000]
      h6 h8 by blast
  show ?thesis
    using h1 h2 c0(1) w1 w2 h3 w3 h4 c0(4) w4 h5 w5 h6 h7 w6 h8 w7 by blast
qed

subsection \<open>Delivery of results\<close>


text \<open>
  How the chunk number is read: when the call settles, from the counter as it stands
  then.  A second flush that begins while the first call is pending moves the counter
  on, and the first segment's text is then marked with the second's number.
\<close>

lemma chunk_label_reads_current_counter:
  "map text (transcriptions (run (page_props (WhisperTranscriptionService ''sk-1''))
      (first_window
       @ [TimerTick 6000, DataAvailable (fragment 4000), Click 6100,
          DataAvailable (fragment 4000), StopTimeout 7100,
          TranscribeSettled 0 7200 (Response 200 ''(json)'' (JsonText (Some (ascii ''one'')))),
          TranscribeSettled 0 7300 (Response 200 ''(json)'' (JsonText (Some (ascii ''two''))))])
      initial))
   = [Some (ascii ''one [Chunk #2]''), Some (ascii ''two [Chunk #2]'')]"
  by (simp add: recorder_defs WhisperTranscriptionService_transcribe_def trim_def
        is_space_def Number_toString_def digits10.simps ascii_def)






subsection \<open>Failure of a transcription\<close>

text \<open>
  C6.  When the call for a pending segment fails, the failure stays with that segment.
  The error's message is shown, the call is no longer pending, and the count of
  pending chunks and the transcribing flag are brought up to date as after any call;
  nothing else in the component changes: the recording flag, the timer, the host
  recorder, the buffer, the flush times and the chunk counter are as before, the
  segment is not submitted again, and the caller's list is unchanged.  The next tick of
  the timer submits exactly what it would have submitted otherwise, and the next flush
  clears the message.  A rejected \<^verbatim>\<open>fetch\<close> and a response outside 200 to
  299 are such failures of the remote service.
\<close>

theorem transcription_failure_contained:
  assumes "k < length (inflight r)" and "readyAt (inflight r ! k) \<le> now"
    and "transcribe (transcriptionService props) (toLocaleTimeString props) reply
           (segment (inflight r ! k)) = Inl (Error msg)"
  shows "transcribeSettled props k now reply r
           = r\<lparr>inflight := take k (inflight r) @ drop (Suc k) (inflight r),
               error := Some msg,
               pendingChunks := max 0 (pendingChunks r - 1),
               isTranscribing :=
                 (if seenPending (inflight r ! k) \<le> 1 then False else isTranscribing r)\<rparr>
       \<and> error (transcribeSettled props k now reply r) = Some msg
       \<and> isRecording (transcribeSettled props k now reply r) = isRecording r
       \<and> chunkTimerRef (transcribeSettled props k now reply r) = chunkTimerRef r
       \<and> mediaRecorderRef (transcribeSettled props k now reply r) = mediaRecorderRef r
       \<and> chunksRef (transcribeSettled props k now reply r) = chunksRef r
       \<and> lastChunkTimeRef (transcribeSettled props k now reply r) = lastChunkTimeRef r
       \<and> startTimeRef (transcribeSettled props k now reply r) = startTimeRef r
       \<and> chunkCountRef (transcribeSettled props k now reply r) = chunkCountRef r
       \<and> stopTimeouts (transcribeSettled props k now reply r) = stopTimeouts r
       \<and> calls (transcribeSettled props k now reply r) = calls r
       \<and> transcriptions (transcribeSettled props k now reply r) = transcriptions r
       \<and> inflight (transcribeSettled props k now reply r)
            = take k (inflight r) @ drop (Suc k) (inflight r)
       \<and> calls (timerTick props later (transcribeSettled props k now reply r))
            = calls (timerTick props later r)
       \<and> chunkTimerRef (timerTick props later (transcribeSettled props k now reply r))
            = chunkTimerRef (timerTick props later r)
       \<and> (chunksRef r \<noteq> [] \<longrightarrow>
            error (processChunk props seen later (transcribeSettled props k now reply r)) = None)
       \<and> (size_of (blob seg) \<noteq> 0 \<longrightarrow>
            WhisperTranscriptionService_transcribe apiKey (FetchRejected m) seg = Inl (Error m))
       \<and> (size_of (blob seg) \<noteq> 0 \<and> \<not> ok (Response status body js) \<longrightarrow>
            WhisperTranscriptionService_transcribe apiKey (Response status body js) seg
              = Inl (Error (''Transcription failed ('' @ Number_toString (int status)
                            @ ''): '' @ body)))"
proof -
  let ?r' = "transcribeSettled props k now reply r"
  have eq: "?r' = r\<lparr>inflight := take k (inflight r) @ drop (Suc k) (inflight r),
          error := Some msg,
          pendingChunks := max 0 (pendingChunks r - 1),
          isTranscribing :=
            (if seenPending (inflight r ! k) \<le> 1 then False else isTranscribing r)\<rparr>"
    by (simp add: transcribeSettled_Inl [OF assms] finally_block_def)
  have tick: "calls (timerTick props later ?r') = calls (timerTick props later r)
     \<and> chunkTimerRef (timerTick props later ?r') = chunkTimerRef (timerTick props later r)"
    unfolding eq
    by (simp add: timerTick_def processChunk_def Let_def finally_block_def chunkStartTime_def
          split: option.splits)
  have clear: "error (processChunk props seen later ?r') = None" if "chunksRef r \<noteq> []"
    using that unfolding eq
    by (simp add: processChunk_def Let_def finally_block_def)
  have whisper: "WhisperTranscriptionService_transcribe apiKey (FetchRejected m) seg
                   = Inl (Error m)" if "size_of (blob seg) \<noteq> 0"
    using that by (simp add: WhisperTranscriptionService_transcribe_def)
  have status: "WhisperTranscriptionService_transcribe apiKey (Response status body js) seg
              = Inl (Error (''Transcription failed ('' @ Number_toString (int status)
                            @ ''): '' @ body))"
    if "size_of (blob seg) \<noteq> 0" "\<not> ok (Response status body js)"
    using that by (simp add: WhisperTranscriptionService_transcribe_def)
  have fields: "error ?r' = Some msg" "isRecording ?r' = isRecording r"
      "chunkTimerRef ?r' = chunkTimerRef r" "mediaRecorderRef ?r' = mediaRecorderRef r"
      "chunksRef ?r' = chunksRef r" "lastChunkTimeRef ?r' = lastChunkTimeRef r"
      "startTimeRef ?r' = startTimeRef r" "chunkCountRef ?r' = chunkCountRef r"
      "stopTimeouts ?r' = stopTimeouts r" "calls ?r' = calls r"
      "transcriptions ?r' = transcriptions r"
      "inflight ?r' = take k (inflight r) @ drop (Suc k) (inflight r)"
    by (simp_all add: eq)
  show ?thesis using eq fields tick clear whisper status by blast
qed

theorem transcription_failure_contained_witness:
  "0 < length (inflight (run (page_props (WhisperTranscriptionService ''sk-1''))
         (first_window @ [TimerTick 6000, DataAvailable (fragment 4000)]) initial))
   \<and> readyAt (inflight (run (page_props (WhisperTranscriptionService ''sk-1''))
         (first_window @ [TimerTick 6000, DataAvailable (fragment 4000)]) initial) ! 0) \<le> 7000
   \<and> \<not> ok (Response 500 ''overloaded'' (JsonThrows ''Unexpected token''))
   \<and> transcribe (WhisperTranscriptionService ''sk-1'') (\<lambda>t. ascii ''12:00:00 AM'')
         (Response 500 ''overloaded'' (JsonThrows ''Unexpected token''))
         (segment (inflight (run (page_props (WhisperTranscriptionService ''sk-1''))
            (first_window @ [TimerTick 6000, DataAvailable (fragment 4000)]) initial) ! 0))
       = Inl (Error ''Transcription failed (500): overloaded'')
   \<and> error (run (page_props (WhisperTranscriptionService ''sk-1''))
         (first_window @ [TimerTick 6000, DataAvailable (fragment 4000),
            TranscribeSettled 0 7000
              (Response 500 ''overloaded'' (JsonThrows ''Unexpected token''))]) initial)
       = Some ''Transcription failed (500): overloaded''
   \<and> isRecording (run (page_props (WhisperTranscriptionService ''sk-1''))
         (first_window @ [TimerTick 6000, DataAvailable (fragment 4000),
            TranscribeSettled 0 7000
              (Response 500 ''overloaded'' (JsonThrows ''Unexpected token''))]) initial)
   \<and> chunkTimerRef (run (page_props (WhisperTranscriptionService ''sk-1''))
         (first_window @ [TimerTick 6000, DataAvailable (fragment 4000),
            TranscribeSettled 0 7000
              (Response 500 ''overloaded'' (JsonThrows ''Unexpected token''))]) initial)
       = Some (12000, 0)
   \<and> map bounds (calls (run (page_props (WhisperTranscriptionService ''sk-1''))
         (first_window @ [TimerTick 6000, DataAvailable (fragment 4000),
            TranscribeSettled 0 7000
              (Response 500 ''overloaded'' (JsonThrows ''Unexpected token'')),
            TimerTick 12000]) initial))
       = [(0, 6000), (6000, 12000)]"
proof -
  let ?props = "page_props (WhisperTranscriptionService ''sk-1'')"
  let ?r = "run ?props (first_window @ [TimerTick 6000, DataAvailable (fragment 4000)]) initial"
  let ?reply = "Response 500 ''overloaded'' (JsonThrows ''Unexpected token'')"
  let ?msg = "''Transcription failed (500): overloaded''"
  have h1: "0 < length (inflight ?r)" by (simp add: recorder_defs)
  have h2: "readyAt (inflight ?r ! 0) \<le> 7000" by (simp add: recorder_defs)
  have h0: "\<not> ok ?reply" by simp
  have h3: "transcribe (WhisperTranscriptionService ''sk-1'') (\<lambda>t. ascii ''12:00:00 AM'') ?reply
              (segment (inflight ?r ! 0)) = Inl (Error ?msg)"
    by (simp add: recorder_defs WhisperTranscriptionService_transcribe_def
          Number_toString_def digits10.simps)
  have h3': "transcribe (transcriptionService ?props) (toLocaleTimeString ?props) ?reply
              (segment (inflight ?r ! 0)) = Inl (Error ?msg)"
    using h3 by (simp add: page_props_def)
  have s1: "run ?props (first_window @ [TimerTick 6000, DataAvailable (fragment 4000),
              TranscribeSettled 0 7000 ?reply]) initial
            = transcribeSettled ?props 0 7000 ?reply ?r"
    by (simp add: first_window_def)
  have s2: "run ?props (first_window @ [TimerTick 6000, DataAvailable (fragment 4000),
              TranscribeSettled 0 7000 ?reply, TimerTick 12000]) initial
            = timerTick ?props 12000 (transcribeSettled ?props 0 7000 ?reply ?r)"
    by (simp add: first_window_def)
  have c0: "isRecording ?r" "chunkTimerRef ?r = Some (12000, 0)"
      "map bounds (calls (timerTick ?props 12000 ?r)) = [(0, 6000), (6000, 12000)]"
    by (simp_all add: recorder_defs)
  note failed = transcription_failure_contained [where later = 12000, OF h1 h2 h3']
  have e1: "error (transcribeSettled ?props 0 7000 ?reply ?r) = Some ?msg"
    using failed by blast
  have "isRecording (transcribeSettled ?props 0 7000 ?reply ?r) = isRecording ?r"
    using failed by blast
  then have e2: "isRecording (transcribeSettled ?props 0 7000 ?reply ?r)"
    using c0(1) by (simp only: simp_thms)
  have "chunkTimerRef (transcribeSettled ?props 0 7000 ?reply ?r) = chunkTimerRef ?r"
    using failed by blast
  then have e3: "chunkTimerRef (transcribeSettled ?props 0 7000 ?reply ?r) = Some (12000, 0)"
    using c0(2) by (simp only:)
  have "calls (timerTick ?props 12000 (transcribeSettled ?props 0 7000 ?reply ?r))
          = calls (timerTick ?props 12000 ?r)"
    using failed by blast
  then have e4: "map bounds (calls (timerTick ?props 12000
                   (transcribeSettled ?props 0 7000 ?reply ?r)))
          = [(0, 6000), (6000, 12000)]"
    using c0(3) by (simp only:)
  show ?thesis unfolding s1 s2 using h1 h2 h0 h3 e1 e2 e3 e4 by blast
qed

end
